theory Spec2Isabelle
  imports Complex_Main "HOL-Library.AList" "HOL-Library.Multiset" "HOL-Library.Word"
begin

section \<open>Shared data model (models/types.ts)\<close>

text \<open>
  A JavaScript string is a sequence of UTF-16 code units; its \<open>length\<close> counts them.
  \<open>js\<close> writes an ASCII literal as such a string.
\<close>

type_synonym jsstring = "16 word list"

definition js :: "string \<Rightarrow> jsstring" where
  "js s = map of_char s"

text \<open>
  A JavaScript number is NaN, an infinity, or finite; a finite number is an exact real, so
  rounding is outside the model. A property typed \<open>number\<close> may hold \<open>undefined\<close> at run
  time: \<open>None\<close>. The comparison operators convert \<open>undefined\<close> to NaN, and every
  comparison with NaN is false.
\<close>

datatype number = NaN | NegInfinity | Fin real | PosInfinity

type_synonym numval = "number option"

fun num_lt :: "number \<Rightarrow> number \<Rightarrow> bool" where
  "num_lt NaN b = False"
| "num_lt a NaN = False"
| "num_lt NegInfinity NegInfinity = False"
| "num_lt NegInfinity b = True"
| "num_lt a NegInfinity = False"
| "num_lt PosInfinity b = False"
| "num_lt (Fin x) PosInfinity = True"
| "num_lt (Fin x) (Fin y) = (x < y)"

fun num_le :: "number \<Rightarrow> number \<Rightarrow> bool" where
  "num_le NaN b = False"
| "num_le a NaN = False"
| "num_le NegInfinity b = True"
| "num_le a PosInfinity = True"
| "num_le PosInfinity b = False"
| "num_le (Fin x) NegInfinity = False"
| "num_le (Fin x) (Fin y) = (x \<le> y)"

definition toNumber :: "numval \<Rightarrow> number" where
  "toNumber v = (case v of None \<Rightarrow> NaN | Some n \<Rightarrow> n)"

text \<open>The operators \<open><\<close>, \<open><=\<close>, \<open>>\<close> and \<open>>=\<close> of JavaScript on two such values.\<close>

definition lt :: "numval \<Rightarrow> numval \<Rightarrow> bool" where
  "lt a b = num_lt (toNumber a) (toNumber b)"

definition le :: "numval \<Rightarrow> numval \<Rightarrow> bool" where
  "le a b = num_le (toNumber a) (toNumber b)"

definition gt :: "numval \<Rightarrow> numval \<Rightarrow> bool" where
  "gt a b = num_lt (toNumber b) (toNumber a)"

definition ge :: "numval \<Rightarrow> numval \<Rightarrow> bool" where
  "ge a b = num_le (toNumber b) (toNumber a)"

definition fin :: "real \<Rightarrow> numval" where
  "fin x = Some (Fin x)"

text \<open>
  An error message built by a template literal is kept as the list of its pieces: the text
  of the template, an interpolated string, an interpolated number.
\<close>

datatype tok = Txt string | Str jsstring | Num numval

type_synonym message = "tok list"

text \<open>
  The error classes of the repository. \<open>Error\<close> is the plain JavaScript error that a
  collaborator outside the repository may throw.
\<close>

datatype error =
    Error message
  | ConfigurationError message
  | DocumentProcessingError message
  | VectorStoreError message
  | LLMError message
  | RetrievalError message

fun message_of :: "error \<Rightarrow> message" where
  "message_of (Error m) = m"
| "message_of (ConfigurationError m) = m"
| "message_of (DocumentProcessingError m) = m"
| "message_of (VectorStoreError m) = m"
| "message_of (LLMError m) = m"
| "message_of (RetrievalError m) = m"

text \<open>
  \<open>String.prototype.trim\<close> removes, at both ends, the code units that ECMAScript calls
  white space or line terminator: TAB, LF, VT, FF, CR, SPACE, NBSP (U+00A0), U+1680,
  U+2000 to U+200A, LS (U+2028), PS (U+2029), U+202F, U+205F, U+3000 and the byte order
  mark U+FEFF.
\<close>

definition is_space :: "16 word \<Rightarrow> bool" where
  "is_space c = (c = 0x0009 \<or> c = 0x000A \<or> c = 0x000B \<or> c = 0x000C \<or> c = 0x000D
                 \<or> c = 0x0020 \<or> c = 0x00A0 \<or> c = 0x1680
                 \<or> (0x2000 \<le> c \<and> c \<le> 0x200A)
                 \<or> c = 0x2028 \<or> c = 0x2029 \<or> c = 0x202F \<or> c = 0x205F \<or> c = 0x3000
                 \<or> c = 0xFEFF)"

definition trim :: "jsstring \<Rightarrow> jsstring" where
  "trim s = rev (dropWhile is_space (rev (dropWhile is_space s)))"

text \<open>Rendering of a non-negative integer inside a template literal.\<close>

fun string_of_nat :: "nat \<Rightarrow> string" where
  "string_of_nat n =
     (if n < 10 then [char_of (48 + n)]
      else string_of_nat (n div 10) @ [char_of (48 + n mod 10)])"

declare string_of_nat.simps [simp del]

text \<open>
  The metadata of a LangChain \<open>Document\<close> is a \<open>Record<string, any>\<close>. The model keeps
  the keys the repository reads or writes, each one optional: \<open>None\<close> is \<open>undefined\<close>.
  A \<open>documentId\<close> that is present may still be the empty string, which JavaScript treats
  as false. A score is an exact real.
\<close>

record metadata =
  documentId :: "jsstring option"
  filename :: "jsstring option"
  fileType :: "jsstring option"
  fileSize :: "nat option"
  pageCount :: "nat option"
  chunkIndex :: "nat option"
  totalChunks :: "nat option"
  score :: "real option"

record document =
  pageContent :: jsstring
  metadata :: metadata

definition empty_metadata :: metadata where
  "empty_metadata = \<lparr>documentId = None, filename = None, fileType = None, fileSize = None,
     pageCount = None, chunkIndex = None, totalChunks = None, score = None\<rparr>"

section \<open>VectorStoreManager (services/vectorStore.service.ts)\<close>

text \<open>
  The manager owns the underlying \<open>MemoryVectorStore\<close> (\<open>null\<close> until first use) and
  the document registry, a \<open>Map\<close> from documentId to chunk ids, kept here in insertion
  order as an association list with distinct keys.

  \<open>MemoryVectorStore\<close> is LangChain's, not the repository's. Its content is the list of
  the documents added to it. Its \<open>similaritySearch(query, k)\<close> returns the first \<open>k\<close>
  documents of the store ordered by similarity to the query; the order is the parameter
  \<open>rank\<close>, which stands for the embedding service and the cosine measure. The embedding
  service is taken to answer: what a failure of it does is outside this development.
\<close>

type_synonym registry = "(jsstring \<times> jsstring list) list"

record vsm =
  vectorStore :: "document list option"
  documentRegistry :: registry

type_synonym ranking = "jsstring \<Rightarrow> document list \<Rightarrow> document list"

definition new_vsm :: vsm where
  "new_vsm = \<lparr>vectorStore = None, documentRegistry = []\<rparr>"

definition mvs_similaritySearch ::
  "ranking \<Rightarrow> document list \<Rightarrow> jsstring \<Rightarrow> nat \<Rightarrow> document list" where
  "mvs_similaritySearch rank docs query k = take k (rank query docs)"

text \<open>The documents held by the underlying store; a store not yet created holds none.\<close>

definition storeDocs :: "vsm \<Rightarrow> document list" where
  "storeDocs s = (case vectorStore s of None \<Rightarrow> [] | Some docs \<Rightarrow> docs)"

definition initializeStore :: "vsm \<Rightarrow> vsm" where
  "initializeStore s = (if vectorStore s \<noteq> None then s else s\<lparr>vectorStore := Some []\<rparr>)"

text \<open>The \<open>catch\<close> clause shared by the manager's methods: wrap the message, keep the state.\<close>

definition wrapVectorStoreError :: "string \<Rightarrow> (error + 'a) \<times> vsm \<Rightarrow> (error + 'a) \<times> vsm" where
  "wrapVectorStoreError prefix r =
     (case fst r of
        Inl e \<Rightarrow> (Inl (VectorStoreError (Txt prefix # message_of e)), snd r)
      | Inr v \<Rightarrow> r)"

text \<open>
  The \<open>forEach\<close> of \<open>addDocuments\<close>: \<open>index\<close> is the position in the batch, \<open>now index\<close>
  the value of \<open>Date.now()\<close> when that chunk is visited.
\<close>

definition mintChunkId :: "jsstring option \<Rightarrow> nat \<Rightarrow> nat \<Rightarrow> jsstring" where
  "mintChunkId docId index t =
     (case docId of None \<Rightarrow> js ''undefined'' | Some d \<Rightarrow> d)
       @ js ''_chunk_'' @ js (string_of_nat index) @ js ''_'' @ js (string_of_nat t)"

definition registryPush :: "jsstring \<Rightarrow> jsstring \<Rightarrow> registry \<Rightarrow> registry" where
  "registryPush d chunkId reg =
     (let reg1 = (if map_of reg d = None then AList.update d [] reg else reg)
      in case map_of reg1 d of
           None \<Rightarrow> reg1
         | Some chunkIds \<Rightarrow> AList.update d (chunkIds @ [chunkId]) reg1)"

definition truthy :: "jsstring option \<Rightarrow> bool" where
  "truthy v = (case v of None \<Rightarrow> False | Some s \<Rightarrow> s \<noteq> [])"

fun registerChunks ::
  "(nat \<Rightarrow> nat) \<Rightarrow> nat \<Rightarrow> document list \<Rightarrow> jsstring list \<times> registry
     \<Rightarrow> jsstring list \<times> registry" where
  "registerChunks now index [] acc = acc"
| "registerChunks now index (doc # docs) (ids, reg) =
     (let docId = documentId (metadata doc);
          chunkId = mintChunkId docId index (now index);
          reg' = (case docId of
                    None \<Rightarrow> reg
                  | Some d \<Rightarrow> if truthy docId then registryPush d chunkId reg else reg)
      in registerChunks now (Suc index) docs (ids @ [chunkId], reg'))"

definition addDocuments ::
  "(nat \<Rightarrow> nat) \<Rightarrow> document list \<Rightarrow> vsm \<Rightarrow> (error + jsstring list) \<times> vsm" where
  "addDocuments now documents s =
     wrapVectorStoreError ''Failed to add documents to vector store: ''
       (let s1 = (if vectorStore s = None then initializeStore s else s)
        in case vectorStore s1 of
             None \<Rightarrow> (Inl (VectorStoreError [Txt ''Vector store not initialized'']), s1)
           | Some docs \<Rightarrow>
               if length documents = 0 then (Inr [], s1)
               else
                 (let s2 = s1\<lparr>vectorStore := Some (docs @ documents)\<rparr>;
                      r = registerChunks now 0 documents ([], documentRegistry s2)
                  in (Inr (fst r), s2\<lparr>documentRegistry := snd r\<rparr>)))"

text \<open>The guard \<open>!s || s.trim() === ""\<close>.\<close>

definition blank :: "jsstring \<Rightarrow> bool" where
  "blank s = (s = [] \<or> trim s = [])"

definition deleteDocument :: "ranking \<Rightarrow> jsstring \<Rightarrow> vsm \<Rightarrow> (error + bool) \<times> vsm" where
  "deleteDocument rank docId s =
     wrapVectorStoreError ''Failed to delete document: ''
       (let s1 = (if vectorStore s = None then initializeStore s else s)
        in if blank docId
           then (Inl (VectorStoreError [Txt ''Document ID cannot be empty'']), s1)
           else
             (case map_of (documentRegistry s1) docId of
                None \<Rightarrow> (Inr False, s1)
              | Some chunkIds \<Rightarrow>
                  if length chunkIds = 0 then (Inr False, s1)
                  else
                    (let s2 = (case vectorStore s1 of
                                 None \<Rightarrow> s1
                               | Some docs \<Rightarrow>
                                   (let allDocs = mvs_similaritySearch rank docs [] 10000;
                                        remainingDocs =
                                          filter (\<lambda>doc. documentId (metadata doc) \<noteq> Some docId) allDocs
                                    in s1\<lparr>vectorStore := Some remainingDocs\<rparr>))
                     in (Inr True,
                         s2\<lparr>documentRegistry := AList.delete docId (documentRegistry s2)\<rparr>))))"

definition getStoredDocumentIds :: "vsm \<Rightarrow> jsstring list" where
  "getStoredDocumentIds s = map fst (documentRegistry s)"

definition hasDocument :: "vsm \<Rightarrow> jsstring \<Rightarrow> bool" where
  "hasDocument s docId = (map_of (documentRegistry s) docId \<noteq> None)"

definition getDocumentChunkCount :: "vsm \<Rightarrow> jsstring \<Rightarrow> nat" where
  "getDocumentChunkCount s docId =
     (case map_of (documentRegistry s) docId of None \<Rightarrow> 0 | Some chunkIds \<Rightarrow> length chunkIds)"

definition searchWithinDocument ::
  "ranking \<Rightarrow> jsstring \<Rightarrow> jsstring \<Rightarrow> nat \<Rightarrow> vsm \<Rightarrow> (error + document list) \<times> vsm" where
  "searchWithinDocument rank docId query k s =
     wrapVectorStoreError ''Failed to search within document: ''
       (let s1 = (if vectorStore s = None then initializeStore s else s)
        in if blank docId
           then (Inl (VectorStoreError [Txt ''Document ID cannot be empty'']), s1)
           else if blank query
           then (Inl (VectorStoreError [Txt ''Query cannot be empty'']), s1)
           else if \<not> hasDocument s1 docId then (Inr [], s1)
           else
             (let results = mvs_similaritySearch rank (storeDocs s1) query (k * 3);
                  filteredResults =
                    take k (filter (\<lambda>doc. documentId (metadata doc) = Some docId) results)
              in (Inr filteredResults, s1)))"

record storeStats =
  totalDocuments :: nat
  totalChunksStat :: nat
  documentIds :: "jsstring list"

definition getStoreStats :: "vsm \<Rightarrow> storeStats" where
  "getStoreStats s =
     \<lparr>totalDocuments = length (documentRegistry s),
      totalChunksStat = foldl (\<lambda>sum chunks. sum + length chunks) 0 (map snd (documentRegistry s)),
      documentIds = getStoredDocumentIds s\<rparr>"

definition clearStore :: "vsm \<Rightarrow> vsm" where
  "clearStore s = s\<lparr>vectorStore := Some [], documentRegistry := []\<rparr>"

section \<open>Configuration (config/config.ts)\<close>

datatype storeType = Memory | Chroma

text \<open>
  The configuration object as it is at run time: every property may hold \<open>undefined\<close>
  (\<open>None\<close>), which an update can put there.
\<close>

record RAGConfig =
  chunkSize :: numval
  chunkOverlap :: numval
  embeddingModel :: "jsstring option"
  vectorStoreType :: "storeType option"
  vectorStorePath :: "jsstring option"
  llmModel :: "jsstring option"
  llmTemperature :: numval
  llmMaxTokens :: numval
  topK :: numval
  scoreThreshold :: numval

text \<open>
  \<open>Partial<RAGConfig>\<close>: a key is absent, or present with a value, which may be
  \<open>undefined\<close>.
\<close>

datatype 'a key = Absent | Present 'a

record RAGConfigPartial =
  p_chunkSize :: "numval key"
  p_chunkOverlap :: "numval key"
  p_embeddingModel :: "jsstring option key"
  p_vectorStoreType :: "storeType option key"
  p_vectorStorePath :: "jsstring option key"
  p_llmModel :: "jsstring option key"
  p_llmTemperature :: "numval key"
  p_llmMaxTokens :: "numval key"
  p_topK :: "numval key"
  p_scoreThreshold :: "numval key"

definition DEFAULT_CONFIG :: RAGConfig where
  "DEFAULT_CONFIG =
     \<lparr>chunkSize = fin 1000, chunkOverlap = fin 200,
      embeddingModel = Some (js ''text-embedding-ada-002''),
      vectorStoreType = Some Memory, vectorStorePath = Some (js ''./data/vectorstore''),
      llmModel = Some (js ''gpt-3.5-turbo''), llmTemperature = fin 0, llmMaxTokens = fin 500,
      topK = fin 4, scoreThreshold = fin 0.7\<rparr>"

text \<open>
  The process environment, one optional string per variable that \<open>loadConfig\<close> reads.
  JavaScript's \<open>Number(value)\<close> is the parameter \<open>Number\<close>.
\<close>

record environment =
  CHUNK_SIZE :: "jsstring option"
  CHUNK_OVERLAP :: "jsstring option"
  EMBEDDING_MODEL :: "jsstring option"
  VECTOR_STORE_TYPE :: "jsstring option"
  VECTOR_STORE_PATH :: "jsstring option"
  LLM_MODEL :: "jsstring option"
  LLM_TEMPERATURE :: "jsstring option"
  LLM_MAX_TOKENS :: "jsstring option"
  TOP_K :: "jsstring option"
  SCORE_THRESHOLD :: "jsstring option"

definition andThen :: "error + 'a \<Rightarrow> ('a \<Rightarrow> error + 'b) \<Rightarrow> error + 'b" where
  "andThen r f = (case r of Inl e \<Rightarrow> Inl e | Inr v \<Rightarrow> f v)"

definition parseNumber ::
  "(jsstring \<Rightarrow> number) \<Rightarrow> jsstring option \<Rightarrow> numval \<Rightarrow> numval \<Rightarrow> numval \<Rightarrow> error + numval" where
  "parseNumber Number val defaultValue minV maxV =
     (if \<not> truthy val then Inr defaultValue
      else
        (let parsed = Number (the val)
         in if parsed = NaN
            then Inl (ConfigurationError
                        [Txt ''Invalid number value: '', Str (the val),
                         Txt ''. Expected a valid number.''])
            else if minV \<noteq> None \<and> lt (Some parsed) minV
            then Inl (ConfigurationError
                        [Txt ''Value '', Num (Some parsed),
                         Txt '' is below minimum allowed value of '', Num minV])
            else if maxV \<noteq> None \<and> gt (Some parsed) maxV
            then Inl (ConfigurationError
                        [Txt ''Value '', Num (Some parsed),
                         Txt '' exceeds maximum allowed value of '', Num maxV])
            else Inr (Some parsed)))"

definition validateVectorStoreType :: "jsstring option \<Rightarrow> error + storeType option" where
  "validateVectorStoreType val =
     (if \<not> truthy val then Inr (vectorStoreType DEFAULT_CONFIG)
      else if the val \<noteq> js ''memory'' \<and> the val \<noteq> js ''chroma''
      then Inl (ConfigurationError
                  [Txt ''Invalid vector store type: '', Str (the val),
                   Txt ''. Must be either 'memory' or 'chroma'.''])
      else Inr (Some (if the val = js ''memory'' then Memory else Chroma)))"

definition validateOptionalString :: "jsstring option \<Rightarrow> jsstring option \<Rightarrow> jsstring option" where
  "validateOptionalString val defaultValue =
     (if \<not> truthy val \<or> trim (the val) = [] then defaultValue else Some (trim (the val)))"

definition rethrowConfigurationError :: "error + 'a \<Rightarrow> error + 'a" where
  "rethrowConfigurationError r =
     (case r of
        Inl (ConfigurationError m) \<Rightarrow> Inl (ConfigurationError m)
      | Inl e \<Rightarrow> Inl (ConfigurationError (Txt ''Failed to load configuration: '' # message_of e))
      | Inr v \<Rightarrow> Inr v)"

definition loadConfig :: "(jsstring \<Rightarrow> number) \<Rightarrow> environment \<Rightarrow> error + RAGConfig" where
  "loadConfig Number env =
     rethrowConfigurationError
       (andThen (parseNumber Number (CHUNK_SIZE env) (chunkSize DEFAULT_CONFIG)
                   (fin 100) (fin 10000))
         (\<lambda>cs.
       andThen (parseNumber Number (CHUNK_OVERLAP env) (chunkOverlap DEFAULT_CONFIG)
                   (fin 0) (fin 5000))
         (\<lambda>co.
       andThen (validateVectorStoreType (VECTOR_STORE_TYPE env))
         (\<lambda>vt.
       andThen (parseNumber Number (LLM_TEMPERATURE env) (llmTemperature DEFAULT_CONFIG)
                   (fin 0) (fin 2))
         (\<lambda>temp.
       andThen (parseNumber Number (LLM_MAX_TOKENS env) (llmMaxTokens DEFAULT_CONFIG)
                   (fin 1) (fin 4000))
         (\<lambda>mt.
       andThen (parseNumber Number (TOP_K env) (topK DEFAULT_CONFIG) (fin 1) (fin 20))
         (\<lambda>tk.
       andThen (parseNumber Number (SCORE_THRESHOLD env) (scoreThreshold DEFAULT_CONFIG)
                   (fin 0) (fin 1))
         (\<lambda>st.
           (let config =
                  \<lparr>chunkSize = cs, chunkOverlap = co,
                   embeddingModel =
                     validateOptionalString (EMBEDDING_MODEL env) (embeddingModel DEFAULT_CONFIG),
                   vectorStoreType = vt,
                   vectorStorePath =
                     validateOptionalString (VECTOR_STORE_PATH env)
                       (vectorStorePath DEFAULT_CONFIG),
                   llmModel = validateOptionalString (LLM_MODEL env) (llmModel DEFAULT_CONFIG),
                   llmTemperature = temp, llmMaxTokens = mt, topK = tk, scoreThreshold = st\<rparr>
            in if ge (chunkOverlap config) (chunkSize config)
               then Inl (ConfigurationError
                           [Txt ''Chunk overlap ('', Num (chunkOverlap config),
                            Txt '') must be less than chunk size ('', Num (chunkSize config),
                            Txt '')''])
               else Inr config)))))))))"

text \<open>The module's global \<open>configInstance\<close> is the state; \<open>None\<close> is \<open>null\<close>.\<close>

type_synonym configInstance = "RAGConfig option"

definition getConfig ::
  "(jsstring \<Rightarrow> number) \<Rightarrow> environment \<Rightarrow> configInstance
     \<Rightarrow> (error + RAGConfig) \<times> configInstance" where
  "getConfig Number env ci =
     (case ci of
        Some c \<Rightarrow> (Inr c, ci)
      | None \<Rightarrow>
          (case loadConfig Number env of
             Inl e \<Rightarrow> (Inl e, ci)
           | Inr c \<Rightarrow> (Inr c, Some c)))"

text \<open>
  The object spread \<open>{ ...currentConfig, ...updates }\<close>: a key present in the update wins,
  whatever its value.
\<close>

definition spread :: "'a \<Rightarrow> 'a key \<Rightarrow> 'a" where
  "spread current upd = (case upd of Absent \<Rightarrow> current | Present v \<Rightarrow> v)"

definition mergeConfig :: "RAGConfig \<Rightarrow> RAGConfigPartial \<Rightarrow> RAGConfig" where
  "mergeConfig c u =
     \<lparr>chunkSize = spread (chunkSize c) (p_chunkSize u),
      chunkOverlap = spread (chunkOverlap c) (p_chunkOverlap u),
      embeddingModel = spread (embeddingModel c) (p_embeddingModel u),
      vectorStoreType = spread (vectorStoreType c) (p_vectorStoreType u),
      vectorStorePath = spread (vectorStorePath c) (p_vectorStorePath u),
      llmModel = spread (llmModel c) (p_llmModel u),
      llmTemperature = spread (llmTemperature c) (p_llmTemperature u),
      llmMaxTokens = spread (llmMaxTokens c) (p_llmMaxTokens u),
      topK = spread (topK c) (p_topK u),
      scoreThreshold = spread (scoreThreshold c) (p_scoreThreshold u)\<rparr>"

definition updateConfig ::
  "(jsstring \<Rightarrow> number) \<Rightarrow> environment \<Rightarrow> RAGConfigPartial \<Rightarrow> configInstance
     \<Rightarrow> (error + RAGConfig) \<times> configInstance" where
  "updateConfig Number env updates ci =
     (case getConfig Number env ci of
        (Inl e, ci1) \<Rightarrow> (Inl e, ci1)
      | (Inr currentConfig, ci1) \<Rightarrow>
          (let newConfig = mergeConfig currentConfig updates
           in if ge (chunkOverlap newConfig) (chunkSize newConfig)
              then (Inl (ConfigurationError
                           [Txt ''Chunk overlap ('', Num (chunkOverlap newConfig),
                            Txt '') must be less than chunk size ('', Num (chunkSize newConfig),
                            Txt '')'']), ci1)
              else if lt (chunkSize newConfig) (fin 100) \<or> gt (chunkSize newConfig) (fin 10000)
              then (Inl (ConfigurationError
                           [Txt ''Chunk size must be between 100 and 10000, got '',
                            Num (chunkSize newConfig)]), ci1)
              else if lt (topK newConfig) (fin 1) \<or> gt (topK newConfig) (fin 20)
              then (Inl (ConfigurationError
                           [Txt ''topK must be between 1 and 20, got '', Num (topK newConfig)]), ci1)
              else if lt (llmTemperature newConfig) (fin 0) \<or> gt (llmTemperature newConfig) (fin 2)
              then (Inl (ConfigurationError
                           [Txt ''LLM temperature must be between 0 and 2, got '',
                            Num (llmTemperature newConfig)]), ci1)
              else if lt (scoreThreshold newConfig) (fin 0) \<or> gt (scoreThreshold newConfig) (fin 1)
              then (Inl (ConfigurationError
                           [Txt ''Score threshold must be between 0 and 1, got '',
                            Num (scoreThreshold newConfig)]), ci1)
              else (Inr newConfig, Some newConfig)))"

definition resetConfig :: "configInstance \<Rightarrow> configInstance" where
  "resetConfig ci = None"

section \<open>Chunker (utils/textSplitter.ts)\<close>

text \<open>
  LangChain's \<open>RecursiveCharacterTextSplitter\<close> is not part of the repository:
  \<open>createDocuments\<close> is a parameter, given the configuration the splitter was created
  with, the text and the metadata, and answering with the documents or an error.
  
\<close>

type_synonym splitter = "RAGConfig \<Rightarrow> jsstring \<Rightarrow> metadata \<Rightarrow> error + document list"

definition rethrowDocumentProcessingError :: "string \<Rightarrow> error + 'a \<Rightarrow> error + 'a" where
  "rethrowDocumentProcessingError prefix r =
     (case r of
        Inl (DocumentProcessingError m) \<Rightarrow> Inl (DocumentProcessingError m)
      | Inl e \<Rightarrow> Inl (DocumentProcessingError (Txt prefix # message_of e))
      | Inr v \<Rightarrow> Inr v)"

definition splitText ::
  "splitter \<Rightarrow> jsstring \<Rightarrow> RAGConfig \<Rightarrow> metadata \<Rightarrow> error + document list" where
  "splitText createDocuments text config md =
     rethrowDocumentProcessingError ''Failed to split text: ''
       (if text = [] \<or> length (trim text) = 0
        then Inl (DocumentProcessingError [Txt ''Cannot split empty document''])
        else
          (let trimmedText = trim text
           in if le (fin (real (length trimmedText))) (chunkSize config)
              then Inr [\<lparr>pageContent = trimmedText,
                         metadata = md\<lparr>chunkIndex := Some 0, totalChunks := Some 1\<rparr>\<rparr>]
              else
                (case createDocuments config trimmedText md of
                   Inl e \<Rightarrow> Inl e
                 | Inr documents \<Rightarrow>
                     Inr (map (\<lambda>(index, doc).
                                 \<lparr>pageContent = pageContent doc,
                                  metadata = (metadata doc)\<lparr>chunkIndex := Some index,
                                    totalChunks := Some (length documents)\<rparr>\<rparr>)
                            (enumerate 0 documents)))))"

definition validateSplittingConfig :: "RAGConfig \<Rightarrow> error + unit" where
  "validateSplittingConfig config =
     (if le (chunkSize config) (fin 0)
      then Inl (DocumentProcessingError
                  [Txt ''Invalid chunk size: '', Num (chunkSize config),
                   Txt ''. Must be greater than 0.''])
      else if lt (chunkOverlap config) (fin 0)
      then Inl (DocumentProcessingError
                  [Txt ''Invalid chunk overlap: '', Num (chunkOverlap config),
                   Txt ''. Must be non-negative.''])
      else if ge (chunkOverlap config) (chunkSize config)
      then Inl (DocumentProcessingError
                  [Txt ''Chunk overlap ('', Num (chunkOverlap config),
                   Txt '') must be less than chunk size ('', Num (chunkSize config), Txt '')''])
      else Inr ())"

section \<open>DocumentIngestionService (services/documentIngestion.service.ts)\<close>

text \<open>
  \<open>validateFile\<close> and \<open>loadDocument\<close> (utils/documentLoaders.ts) read the file system
  and call the PDF and DOCX parsers. They enter as parameters that answer with a value or
  an error, so that what is proved of the pipeline holds whatever they do. The minted
  \<open>randomUUID()\<close> and the upload date are parameters as well.
\<close>

record LoadedDocument =
  ld_content :: jsstring
  ld_filename :: jsstring
  ld_fileType :: jsstring
  ld_fileSize :: nat
  ld_pageCount :: "nat option"

record DocumentMetadata =
  dm_documentId :: jsstring
  dm_filename :: jsstring
  dm_fileType :: jsstring
  dm_uploadDate :: nat
  dm_chunkCount :: nat
  dm_fileSize :: nat

datatype ingestionStatus = Processing | Completed | Failed

record IngestionState =
  is_documentId :: jsstring
  status :: ingestionStatus
  progress :: nat
  is_error :: "message option"
  is_metadata :: "DocumentMetadata option"
  is_chunks :: "document list option"

record IngestResult =
  success :: bool
  ir_documentId :: jsstring
  ir_chunkCount :: nat
  ir_error :: "message option"

type_synonym ingestionStates = "jsstring \<rightharpoonup> IngestionState"

record collaborators =
  validateFile :: "jsstring \<Rightarrow> nat option \<Rightarrow> error + unit"
  loadDocument :: "jsstring \<Rightarrow> error + LoadedDocument"
  createDocuments :: splitter

text \<open>A message is the empty string when every piece of it is an empty text or string.\<close>

definition emptyMessage :: "message \<Rightarrow> bool" where
  "emptyMessage m = list_all (\<lambda>t. t = Txt [] \<or> t = Str []) m"

definition updateProgress ::
  "jsstring \<Rightarrow> ingestionStatus \<Rightarrow> nat \<Rightarrow> message option \<Rightarrow> ingestionStates
     \<Rightarrow> ingestionStates" where
  "updateProgress docId st pr err states =
     (case states docId of
        None \<Rightarrow> states
      | Some state \<Rightarrow>
          states(docId \<mapsto>
            (let state1 = state\<lparr>status := st, progress := pr\<rparr>
             in case err of
                  None \<Rightarrow> state1
                | Some m \<Rightarrow> if emptyMessage m then state1 else state1\<lparr>is_error := Some m\<rparr>)))"

text \<open>The metadata that \<open>ingestDocument\<close> hands to \<open>splitText\<close>.\<close>

definition chunkMetadata :: "jsstring \<Rightarrow> LoadedDocument \<Rightarrow> metadata" where
  "chunkMetadata docId loadedDoc =
     \<lparr>documentId = Some docId, filename = Some (ld_filename loadedDoc),
      fileType = Some (ld_fileType loadedDoc), fileSize = Some (ld_fileSize loadedDoc),
      pageCount = ld_pageCount loadedDoc, chunkIndex = None, totalChunks = None, score = None\<rparr>"

text \<open>
  The body of the \<open>try\<close> block of \<open>ingestDocument\<close>: every step either goes on with the
  state it has reached or throws from there.
\<close>

definition ingestSteps ::
  "collaborators \<Rightarrow> nat \<Rightarrow> jsstring \<Rightarrow> jsstring \<Rightarrow> RAGConfig \<Rightarrow> nat option \<Rightarrow> ingestionStates
     \<Rightarrow> (error + IngestResult) \<times> ingestionStates" where
  "ingestSteps io uploadDate docId filePath config maxFileSize st0 =
     (let st1 = updateProgress docId Processing 10 None st0
      in case validateFile io filePath maxFileSize of
           Inl e \<Rightarrow> (Inl e, st1)
         | Inr _ \<Rightarrow>
       (case validateSplittingConfig config of
           Inl e \<Rightarrow> (Inl e, st1)
         | Inr _ \<Rightarrow>
       (let st2 = updateProgress docId Processing 40 None st1
        in case loadDocument io filePath of
             Inl e \<Rightarrow> (Inl e, st2)
           | Inr loadedDoc \<Rightarrow>
       (let st3 = updateProgress docId Processing 70 None st2
        in case splitText (createDocuments io) (ld_content loadedDoc) config
                  (chunkMetadata docId loadedDoc) of
             Inl e \<Rightarrow> (Inl e, st3)
           | Inr chunks \<Rightarrow>
       (let st4 = updateProgress docId Processing 90 None st3;
            md = \<lparr>dm_documentId = docId, dm_filename = ld_filename loadedDoc,
                  dm_fileType = ld_fileType loadedDoc, dm_uploadDate = uploadDate,
                  dm_chunkCount = length chunks, dm_fileSize = ld_fileSize loadedDoc\<rparr>;
            st5 = (case st4 docId of
                     None \<Rightarrow> st4
                   | Some state \<Rightarrow>
                       st4(docId \<mapsto> state\<lparr>is_metadata := Some md, is_chunks := Some chunks\<rparr>));
            st6 = updateProgress docId Completed 100 None st5
        in (Inr \<lparr>success = True, ir_documentId = docId, ir_chunkCount = length chunks,
                 ir_error = None\<rparr>, st6))))))"

definition ingestDocument ::
  "collaborators \<Rightarrow> jsstring \<Rightarrow> nat \<Rightarrow> jsstring \<Rightarrow> RAGConfig \<Rightarrow> nat option \<Rightarrow> ingestionStates
     \<Rightarrow> (error + IngestResult) \<times> ingestionStates" where
  "ingestDocument io uuid uploadDate filePath config maxFileSize states =
     (let docId = uuid;
          st0 = states(docId \<mapsto>
                  \<lparr>is_documentId = docId, status = Processing, progress = 0, is_error = None,
                   is_metadata = None, is_chunks = None\<rparr>)
      in case ingestSteps io uploadDate docId filePath config maxFileSize st0 of
           (Inr result, st) \<Rightarrow> (Inr result, st)
         | (Inl e, st) \<Rightarrow>
             (let errorMessage = message_of e
              in (Inr \<lparr>success = False, ir_documentId = docId, ir_chunkCount = 0,
                       ir_error = Some errorMessage\<rparr>,
                  updateProgress docId Failed 0 (Some errorMessage) st)))"

section \<open>QAEngine (services/qa.service.ts)\<close>

record SourceDocument =
  sd_documentId :: jsstring
  sd_filename :: jsstring
  sd_content :: jsstring
  sd_chunkIndex :: nat
  sd_relevanceScore :: real

record QAResponse =
  answer :: jsstring
  sources :: "SourceDocument list"
  confidence :: real
  processingTime :: int

record QAConfig =
  qa_topK :: numval
  qa_temperature :: numval
  qa_maxTokens :: numval

text \<open>
  \<open>Partial<QAConfig>\<close>; the argument itself is optional. The code reads a key with
  \<open>config?.key\<close>, which gives \<open>undefined\<close> (\<open>None\<close>) for a key that is absent as for a
  key that holds \<open>undefined\<close>.
\<close>

record QAConfigPartial =
  o_topK :: numval
  o_temperature :: numval
  o_maxTokens :: numval

datatype role = User | Assistant

record Message =
  msg_role :: role
  msg_content :: jsstring

datatype BaseMessage = HumanMessage jsstring | AIMessage jsstring

text \<open>The \<open>ChatOpenAI\<close> client, as the options it was constructed with.\<close>

record ChatOpenAI =
  modelName :: "jsstring option"
  temperature :: numval
  maxTokens :: numval

text \<open>
  A retrieval chain, as what \<open>createRetrievalChain\<close> was given when it was built: the
  \<open>k\<close> of the retriever and the client inside the document chain (and, for the
  conversational chain, inside the history-aware retriever).
\<close>

record chain =
  retriever_k :: numval
  chain_llm :: ChatOpenAI
  history_aware :: bool

text \<open>
  The constructors of LangChain (\<open>createStuffDocumentsChain\<close>,
  \<open>createRetrievalChain\<close>, \<open>createHistoryAwareRetriever\<close>) are taken to succeed.

  What \<open>chain.invoke\<close> resolves to: \<open>answer\<close> and \<open>context\<close>, either of which may be
  missing. The call itself, retrieval and language model together, is the parameter
  \<open>invoke\<close>, given the chain, the question and (for the conversational chain) the history.
\<close>

record chainResult =
  cr_answer :: "jsstring option"
  cr_context :: "document list option"

type_synonym invoker = "chain \<Rightarrow> jsstring \<Rightarrow> BaseMessage list option \<Rightarrow> error + chainResult"

record QAEngine =
  llm :: ChatOpenAI
  vectorStoreManager :: vsm
  qaChain :: "chain option"
  conversationalChain :: "chain option"
  chatHistory :: "BaseMessage list"

definition formatSourceDocument :: "nat \<Rightarrow> document \<Rightarrow> SourceDocument" where
  "formatSourceDocument index doc =
     \<lparr>sd_documentId =
        (if truthy (documentId (metadata doc)) then the (documentId (metadata doc))
         else js ''unknown_'' @ js (string_of_nat index)),
      sd_filename =
        (if truthy (filename (metadata doc)) then the (filename (metadata doc)) else js ''Unknown''),
      sd_content = (if pageContent doc \<noteq> [] then pageContent doc else []),
      sd_chunkIndex = (case chunkIndex (metadata doc) of None \<Rightarrow> index | Some ci \<Rightarrow> ci),
      sd_relevanceScore = (case score (metadata doc) of None \<Rightarrow> 1.0 | Some sc \<Rightarrow> sc)\<rparr>"

definition formatSourceDocuments :: "document list \<Rightarrow> SourceDocument list" where
  "formatSourceDocuments documents =
     map (\<lambda>(index, doc). formatSourceDocument index doc) (enumerate 0 documents)"

definition calculateConfidence :: "document list \<Rightarrow> real" where
  "calculateConfidence documents =
     (if length documents = 0 then 0.0
      else
        (let scores = map the (filter (\<lambda>sc. sc \<noteq> None) (map (\<lambda>doc. score (metadata doc)) documents))
         in if length scores > 0
            then (let avgScore = foldl (\<lambda>sum sc. sum + sc) 0 scores / real (length scores)
                  in min 1.0 (max 0.0 avgScore))
            else (let baseConfidence = min (real (length documents) / 4) 1.0
                  in baseConfidence * 0.8)))"

definition rethrowQA :: "string \<Rightarrow> error + 'a \<Rightarrow> error + 'a" where
  "rethrowQA prefix r =
     (case r of
        Inl (RetrievalError m) \<Rightarrow> Inl (RetrievalError m)
      | Inl (LLMError m) \<Rightarrow> Inl (LLMError m)
      | Inl e \<Rightarrow> Inl (LLMError (Txt prefix # message_of e))
      | Inr v \<Rightarrow> Inr v)"

definition buildChain :: "bool \<Rightarrow> string \<Rightarrow> QAConfig \<Rightarrow> QAEngine \<Rightarrow> (error + chain) \<times> QAEngine" where
  "buildChain conversational prefix config e =
     (let e1 = e\<lparr>vectorStoreManager := initializeStore (vectorStoreManager e)\<rparr>
      in case vectorStore (vectorStoreManager e1) of
           None \<Rightarrow>
             (Inl (LLMError [Txt prefix, Txt ''Vector store not initialized'']), e1)
         | Some _ \<Rightarrow>
             (Inr \<lparr>retriever_k = qa_topK config, chain_llm = llm e1,
                   history_aware = conversational\<rparr>, e1))"

definition initializeQAChain :: "QAConfig \<Rightarrow> QAEngine \<Rightarrow> (error + unit) \<times> QAEngine" where
  "initializeQAChain config e =
     (case buildChain False ''Failed to initialize QA chain: '' config e of
        (Inl err, e1) \<Rightarrow> (Inl err, e1)
      | (Inr c, e1) \<Rightarrow> (Inr (), e1\<lparr>qaChain := Some c\<rparr>))"

definition initializeConversationalChain :: "QAConfig \<Rightarrow> QAEngine \<Rightarrow> (error + unit) \<times> QAEngine" where
  "initializeConversationalChain config e =
     (case buildChain True ''Failed to initialize conversational chain: '' config e of
        (Inl err, e1) \<Rightarrow> (Inl err, e1)
      | (Inr c, e1) \<Rightarrow> (Inr (), e1\<lparr>conversationalChain := Some c\<rparr>))"

text \<open>\<open>config?.topK\<close> and its siblings.\<close>

definition opt :: "('a \<Rightarrow> 'b option) \<Rightarrow> 'a option \<Rightarrow> 'b option" where
  "opt field config = (case config of None \<Rightarrow> None | Some c \<Rightarrow> field c)"

text \<open>The operator \<open>??\<close>: the left value unless it is \<open>undefined\<close>.\<close>

definition orElse :: "'a option \<Rightarrow> 'a option \<Rightarrow> 'a option" where
  "orElse v d = (case v of None \<Rightarrow> d | Some x \<Rightarrow> Some x)"

definition mergeQAConfig :: "QAConfigPartial option \<Rightarrow> RAGConfig \<Rightarrow> QAConfig" where
  "mergeQAConfig config ragConfig =
     \<lparr>qa_topK = orElse (opt o_topK config) (topK ragConfig),
      qa_temperature = orElse (opt o_temperature config) (llmTemperature ragConfig),
      qa_maxTokens = orElse (opt o_maxTokens config) (llmMaxTokens ragConfig)\<rparr>"

definition updateLlm :: "QAConfigPartial option \<Rightarrow> RAGConfig \<Rightarrow> QAConfig \<Rightarrow> QAEngine \<Rightarrow> QAEngine" where
  "updateLlm config ragConfig qaConfig e =
     (if opt o_temperature config \<noteq> None \<or> opt o_maxTokens config \<noteq> None
      then e\<lparr>llm := \<lparr>modelName = llmModel ragConfig, temperature = qa_temperature qaConfig,
                     maxTokens = qa_maxTokens qaConfig\<rparr>\<rparr>
      else e)"

definition makeResponse :: "nat \<Rightarrow> nat \<Rightarrow> chainResult \<Rightarrow> QAResponse" where
  "makeResponse startTime endTime result =
     (let ans = (case cr_answer result of None \<Rightarrow> [] | Some a \<Rightarrow> a);
          sourceDocuments = (case cr_context result of None \<Rightarrow> [] | Some ds \<Rightarrow> ds)
      in \<lparr>answer = ans, sources = formatSourceDocuments sourceDocuments,
          confidence = calculateConfidence sourceDocuments,
          processingTime = int endTime - int startTime\<rparr>)"

text \<open>
  The state of a call is the module's \<open>configInstance\<close> together with the engine.
  \<open>startTime\<close> and \<open>endTime\<close> are the two readings of \<open>Date.now()\<close>.
\<close>

definition askQuestion ::
  "(jsstring \<Rightarrow> number) \<Rightarrow> environment \<Rightarrow> invoker \<Rightarrow> nat \<Rightarrow> nat
     \<Rightarrow> jsstring \<Rightarrow> QAConfigPartial option \<Rightarrow> configInstance \<times> QAEngine
     \<Rightarrow> (error + QAResponse) \<times> configInstance \<times> QAEngine" where
  "askQuestion Number env invoke startTime endTime question config s =
     (case s of (ci, e) \<Rightarrow>
        if blank question
        then (rethrowQA ''Failed to process question: ''
                (Inl (RetrievalError [Txt ''Question cannot be empty''])), ci, e)
        else
          (case getConfig Number env ci of
             (Inl err, ci1) \<Rightarrow> (rethrowQA ''Failed to process question: '' (Inl err), ci1, e)
           | (Inr ragConfig, ci1) \<Rightarrow>
               (let qaConfig = mergeQAConfig config ragConfig;
                    e1 = updateLlm config ragConfig qaConfig e;
                    r = (if qaChain e1 = None then initializeQAChain qaConfig e1 else (Inr (), e1));
                    e2 = snd r
                in case fst r of
                     Inl err \<Rightarrow> (rethrowQA ''Failed to process question: '' (Inl err), ci1, e2)
                   | Inr _ \<Rightarrow>
                       (case qaChain e2 of
                          None \<Rightarrow>
                            (rethrowQA ''Failed to process question: ''
                               (Inl (LLMError [Txt ''QA chain not initialized''])), ci1, e2)
                        | Some c \<Rightarrow>
                            (rethrowQA ''Failed to process question: ''
                               (case invoke c question None of
                                  Inl err \<Rightarrow> Inl err
                                | Inr result \<Rightarrow> Inr (makeResponse startTime endTime result)),
                             ci1, e2)))))"

definition formatHistory :: "Message list \<Rightarrow> BaseMessage list" where
  "formatHistory history =
     map (\<lambda>m. if msg_role m = User then HumanMessage (msg_content m)
              else AIMessage (msg_content m)) history"

definition askWithHistory ::
  "(jsstring \<Rightarrow> number) \<Rightarrow> environment \<Rightarrow> invoker \<Rightarrow> nat \<Rightarrow> nat
     \<Rightarrow> jsstring \<Rightarrow> Message list \<Rightarrow> QAConfigPartial option \<Rightarrow> configInstance \<times> QAEngine
     \<Rightarrow> (error + QAResponse) \<times> configInstance \<times> QAEngine" where
  "askWithHistory Number env invoke startTime endTime question history config s =
     (case s of (ci, e) \<Rightarrow>
        if blank question
        then (rethrowQA ''Failed to process question with history: ''
                (Inl (RetrievalError [Txt ''Question cannot be empty''])), ci, e)
        else
          (case getConfig Number env ci of
             (Inl err, ci1) \<Rightarrow>
               (rethrowQA ''Failed to process question with history: '' (Inl err), ci1, e)
           | (Inr ragConfig, ci1) \<Rightarrow>
               (let qaConfig = mergeQAConfig config ragConfig;
                    e1 = updateLlm config ragConfig qaConfig e;
                    r = (if conversationalChain e1 = None
                         then initializeConversationalChain qaConfig e1 else (Inr (), e1));
                    e2 = snd r
                in case fst r of
                     Inl err \<Rightarrow>
                       (rethrowQA ''Failed to process question with history: '' (Inl err), ci1, e2)
                   | Inr _ \<Rightarrow>
                       (case conversationalChain e2 of
                          None \<Rightarrow>
                            (rethrowQA ''Failed to process question with history: ''
                               (Inl (LLMError [Txt ''Conversational chain not initialized''])),
                             ci1, e2)
                        | Some c \<Rightarrow>
                            (rethrowQA ''Failed to process question with history: ''
                               (case invoke c question (Some (formatHistory history)) of
                                  Inl err \<Rightarrow> Inl err
                                | Inr result \<Rightarrow> Inr (makeResponse startTime endTime result)),
                             ci1, e2)))))"

section \<open>Notions of the specification\<close>

text \<open>The chunks of a batch (or of the store) whose \<open>metadata.documentId\<close> equals \<open>d\<close>.\<close>

definition chunksOf :: "jsstring \<Rightarrow> document list \<Rightarrow> document list" where
  "chunksOf d docs = filter (\<lambda>doc. documentId (metadata doc) = Some d) docs"

text \<open>The chunks that carry no truthy \<open>documentId\<close>: the registry never lists them.\<close>

definition untracked :: "document list \<Rightarrow> document list" where
  "untracked docs = filter (\<lambda>doc. \<not> truthy (documentId (metadata doc))) docs"

definition chunkCount :: "registry \<Rightarrow> jsstring \<Rightarrow> nat" where
  "chunkCount reg d = (case map_of reg d of None \<Rightarrow> 0 | Some chunkIds \<Rightarrow> length chunkIds)"

text \<open>The similarity scores that the retrieved chunks carry, in order.\<close>

definition scoresPresent :: "document list \<Rightarrow> real list" where
  "scoresPresent documents = List.map_filter (\<lambda>doc. score (metadata doc)) documents"

text \<open>
  The steps of ingestion that can fail, in their order: validation of the file, validation
  of the chunking configuration, loading, chunking. The result is the first failure, or the
  chunks produced.
\<close>

definition pipeline ::
  "collaborators \<Rightarrow> jsstring \<Rightarrow> jsstring \<Rightarrow> RAGConfig \<Rightarrow> nat option \<Rightarrow> error + document list" where
  "pipeline io docId filePath config maxFileSize =
     andThen (validateFile io filePath maxFileSize) (\<lambda>_.
     andThen (validateSplittingConfig config) (\<lambda>_.
     andThen (loadDocument io filePath) (\<lambda>loadedDoc.
       splitText (createDocuments io) (ld_content loadedDoc) config (chunkMetadata docId loadedDoc))))"

text \<open>
  The client that a call leaves in the engine's \<open>llm\<close> field: a new one when temperature or
  maxTokens is overridden, the current one otherwise.
\<close>

definition llmFor :: "QAConfigPartial option \<Rightarrow> RAGConfig \<Rightarrow> ChatOpenAI \<Rightarrow> ChatOpenAI" where
  "llmFor config ragConfig current =
     (if opt o_temperature config \<noteq> None \<or> opt o_maxTokens config \<noteq> None
      then \<lparr>modelName = llmModel ragConfig,
            temperature = orElse (opt o_temperature config) (llmTemperature ragConfig),
            maxTokens = orElse (opt o_maxTokens config) (llmMaxTokens ragConfig)\<rparr>
      else current)"

text \<open>
  The later calls on one engine: each is a call of \<open>askQuestion\<close> or of \<open>askWithHistory\<close>
  with its own clock readings, question, history and overrides. \<open>later\<close> runs them in order
  and gives the state they leave.
\<close>

datatype call =
    Ask nat nat jsstring "QAConfigPartial option"
  | Chat nat nat jsstring "Message list" "QAConfigPartial option"

fun perform ::
  "(jsstring \<Rightarrow> number) \<Rightarrow> environment \<Rightarrow> invoker \<Rightarrow> call \<Rightarrow> configInstance \<times> QAEngine
     \<Rightarrow> configInstance \<times> QAEngine" where
  "perform Number env invoke (Ask t0 t1 q config) s =
     snd (askQuestion Number env invoke t0 t1 q config s)"
| "perform Number env invoke (Chat t0 t1 q h config) s =
     snd (askWithHistory Number env invoke t0 t1 q h config s)"

fun later ::
  "(jsstring \<Rightarrow> number) \<Rightarrow> environment \<Rightarrow> invoker \<Rightarrow> call list \<Rightarrow> configInstance \<times> QAEngine
     \<Rightarrow> configInstance \<times> QAEngine" where
  "later Number env invoke [] s = s"
| "later Number env invoke (c # cs) s = later Number env invoke cs (perform Number env invoke c s)"

section \<open>Concrete inputs\<close>

definition rank_id :: ranking where
  "rank_id query docs = docs"

definition clock0 :: "nat \<Rightarrow> nat" where
  "clock0 index = 0"

definition doc_of :: "jsstring option \<Rightarrow> jsstring \<Rightarrow> document" where
  "doc_of docId content =
     \<lparr>pageContent = content, metadata = empty_metadata\<lparr>documentId := docId\<rparr>\<rparr>"

definition doc_a :: document where
  "doc_a = doc_of (Some (js ''a'')) (js ''alpha'')"

definition doc_none :: document where
  "doc_none = doc_of None (js ''nobody'')"

definition doc_blank :: document where
  "doc_blank = doc_of (Some (js '' '')) (js ''space'')"

definition doc_empty :: document where
  "doc_empty = doc_of (Some []) (js ''empty'')"

definition doc_scored :: "real \<Rightarrow> document" where
  "doc_scored r = \<lparr>pageContent = js ''scored'', metadata = empty_metadata\<lparr>score := Some r\<rparr>\<rparr>"

text \<open>A chunk whose metadata has every key, with an empty documentId.\<close>

definition doc_full :: document where
  "doc_full =
     \<lparr>pageContent = js ''full'',
      metadata = \<lparr>documentId = Some [], filename = Some (js ''b.txt''),
        fileType = Some (js ''txt''), fileSize = Some 4, pageCount = None,
        chunkIndex = Some 7, totalChunks = Some 9, score = Some 0\<rparr>\<rparr>"

text \<open>The no-break space U+00A0, alone and around a word.\<close>

definition nbsp :: jsstring where
  "nbsp = [0x00A0]"

definition nbsp_hi :: jsstring where
  "nbsp_hi = [0x00A0] @ js ''hi'' @ [0x2003]"

text \<open>A manager after one batch: a chunk of document \<open>a\<close> and a chunk without documentId.\<close>

definition vsm_a :: vsm where
  "vsm_a = snd (addDocuments clock0 [doc_a, doc_none] new_vsm)"

text \<open>A manager after one batch whose only chunk has the documentId \<open>" "\<close>.\<close>

definition vsm_blank :: vsm where
  "vsm_blank = snd (addDocuments clock0 [doc_blank] new_vsm)"

text \<open>
  A manager after two batches: one chunk of document \<open>a\<close>, then 10000 chunks without
  documentId.
\<close>

definition vsm_big :: vsm where
  "vsm_big = snd (addDocuments clock0 (replicate 10000 doc_none)
                    (snd (addDocuments clock0 [doc_a] new_vsm)))"

text \<open>A \<open>Number\<close> that reads no string as a number, and an environment with no variable set.\<close>

definition nanNumber :: "jsstring \<Rightarrow> number" where
  "nanNumber v = NaN"

text \<open>A \<open>Number\<close> that reads every string as \<open>-5\<close>.\<close>

definition minusFive :: "jsstring \<Rightarrow> number" where
  "minusFive v = Fin (- 5)"

definition env_unset :: environment where
  "env_unset =
     \<lparr>CHUNK_SIZE = None, CHUNK_OVERLAP = None, EMBEDDING_MODEL = None, VECTOR_STORE_TYPE = None,
      VECTOR_STORE_PATH = None, LLM_MODEL = None, LLM_TEMPERATURE = None, LLM_MAX_TOKENS = None,
      TOP_K = None, SCORE_THRESHOLD = None\<rparr>"

definition no_update :: RAGConfigPartial where
  "no_update =
     \<lparr>p_chunkSize = Absent, p_chunkOverlap = Absent, p_embeddingModel = Absent,
      p_vectorStoreType = Absent, p_vectorStorePath = Absent, p_llmModel = Absent,
      p_llmTemperature = Absent, p_llmMaxTokens = Absent, p_topK = Absent,
      p_scoreThreshold = Absent\<rparr>"

definition update_bad :: RAGConfigPartial where
  "update_bad = no_update\<lparr>p_chunkSize := Present (fin 50), p_chunkOverlap := Present (fin 100)\<rparr>"

definition update_ok :: RAGConfigPartial where
  "update_ok = no_update\<lparr>p_topK := Present (fin 10)\<rparr>"

definition update_nan :: RAGConfigPartial where
  "update_nan = no_update\<lparr>p_chunkSize := Present (Some NaN)\<rparr>"

definition update_undefined :: RAGConfigPartial where
  "update_undefined = no_update\<lparr>p_chunkSize := Present None\<rparr>"

definition update_negative :: RAGConfigPartial where
  "update_negative = no_update\<lparr>p_chunkOverlap := Present (fin (- 5)), p_llmMaxTokens := Present (fin 0)\<rparr>"

text \<open>An update with every key present and valid, and the configuration it describes.\<close>

definition update_all :: RAGConfigPartial where
  "update_all =
     \<lparr>p_chunkSize = Present (fin 500), p_chunkOverlap = Present (fin 50),
      p_embeddingModel = Present (Some (js ''e'')), p_vectorStoreType = Present (Some Chroma),
      p_vectorStorePath = Present (Some (js ''p'')), p_llmModel = Present (Some (js ''m'')),
      p_llmTemperature = Present (fin 1), p_llmMaxTokens = Present (fin 100),
      p_topK = Present (fin 10), p_scoreThreshold = Present (fin 0.5)\<rparr>"

definition config_all :: RAGConfig where
  "config_all =
     \<lparr>chunkSize = fin 500, chunkOverlap = fin 50, embeddingModel = Some (js ''e''),
      vectorStoreType = Some Chroma, vectorStorePath = Some (js ''p''),
      llmModel = Some (js ''m''), llmTemperature = fin 1, llmMaxTokens = fin 100,
      topK = fin 10, scoreThreshold = fin 0.5\<rparr>"

definition loaded_txt :: LoadedDocument where
  "loaded_txt = \<lparr>ld_content = js '' hello world '', ld_filename = js ''a.txt'',
     ld_fileType = js ''txt'', ld_fileSize = 13, ld_pageCount = None\<rparr>"

definition io_ok :: collaborators where
  "io_ok = \<lparr>validateFile = (\<lambda>filePath maxFileSize. Inr ()),
            loadDocument = (\<lambda>filePath. Inr loaded_txt),
            createDocuments = (\<lambda>config text md. Inr [])\<rparr>"

definition io_missing :: collaborators where
  "io_missing = io_ok\<lparr>loadDocument :=
     (\<lambda>filePath. Inl (DocumentProcessingError
                        [Txt ''File not found or not accessible: '', Str filePath]))\<rparr>"

definition llm_default :: ChatOpenAI where
  "llm_default = \<lparr>modelName = Some (js ''gpt-3.5-turbo''), temperature = fin 0,
     maxTokens = fin 500\<rparr>"

definition llm_hot :: ChatOpenAI where
  "llm_hot = \<lparr>modelName = Some (js ''gpt-3.5-turbo''), temperature = fin 1.5,
     maxTokens = fin 500\<rparr>"

definition chain_first :: chain where
  "chain_first = \<lparr>retriever_k = fin 4, chain_llm = llm_default, history_aware = False\<rparr>"

definition chain_chat :: chain where
  "chain_chat = \<lparr>retriever_k = fin 4, chain_llm = llm_default, history_aware = True\<rparr>"

definition engine_ready :: QAEngine where
  "engine_ready = \<lparr>llm = llm_default, vectorStoreManager = vsm_a, qaChain = Some chain_first,
     conversationalChain = Some chain_chat, chatHistory = []\<rparr>"

definition engine_new :: QAEngine where
  "engine_new = \<lparr>llm = llm_default, vectorStoreManager = new_vsm, qaChain = None,
     conversationalChain = None, chatHistory = []\<rparr>"

definition overrides :: "QAConfigPartial option" where
  "overrides = Some \<lparr>o_topK = fin 10, o_temperature = fin 1.5, o_maxTokens = None\<rparr>"

definition invoke_ok :: invoker where
  "invoke_ok c question history = Inr \<lparr>cr_answer = Some (js ''ok''), cr_context = Some [doc_a]\<rparr>"

text \<open>Three later calls: a chat, a question with overrides, a chat with overrides.\<close>

definition calls_three :: "call list" where
  "calls_three =
     [Chat 0 5 (js ''why'') [] None, Ask 5 9 (js ''why'') overrides,
      Chat 9 12 (js ''how'') [] overrides]"

section \<open>Evaluation of the concrete inputs\<close>

lemma of_char_word_eq_iff: "(of_char c :: 16 word) = of_char d \<longleftrightarrow> c = d"
proof
  assume h: "(of_char c :: 16 word) = of_char d"
  have small: "(of_char x :: nat) < 2 ^ 16" for x
  proof -
    have "(of_char x :: nat) mod 256 = of_char x"
      by simp
    then have "(of_char x :: nat) < 256"
      by (metis mod_less_divisor zero_less_numeral)
    then have "(of_char x :: nat) < 65536"
      by linarith
    then show ?thesis
      by simp
  qed
  have u: "unat (of_char x :: 16 word) = of_char x" for x
  proof -
    have "(of_char x :: 16 word) = of_nat (of_char x)"
      by (simp add: of_nat_of_char)
    then show ?thesis
      using small[of x] by (simp add: unsigned_of_nat take_bit_nat_eq_self)
  qed
  from h have "unat (of_char c :: 16 word) = unat (of_char d :: 16 word)"
    by simp
  then have "(of_char c :: nat) = of_char d"
    by (simp add: u)
  then show "c = d"
    by simp
qed simp

lemma js_eq_iff: "js s = js t \<longleftrightarrow> s = t"
  unfolding js_def
  by (rule inj_map_eq_map) (simp add: inj_on_def of_char_word_eq_iff)

lemma js_Nil: "js s = [] \<longleftrightarrow> s = []" "[] = js s \<longleftrightarrow> s = []"
  by (auto simp: js_def)

lemma js_append: "js a @ js b = js (a @ b)" "js a @ js b @ r = js (a @ b) @ r"
  by (simp_all add: js_def)

lemmas js_simps = js_eq_iff js_Nil js_append

lemma string_of_nat_0: "string_of_nat 0 = ''0''"
  by code_simp

lemma blank_simps:
  "blank [] = True" "blank (js '' '') = True" "blank (js ''a'') = False"
  "blank (js ''b'') = False" "blank (js ''q'') = False" "blank (js ''why'') = False"
  "blank (js ''how'') = False" "blank nbsp = True"
  by (simp_all add: blank_def trim_def is_space_def js_def nbsp_def)

lemma vsm_a_eq:
  "vsm_a = \<lparr>vectorStore = Some [doc_a, doc_none],
            documentRegistry = [(js ''a'', [js ''a_chunk_0_0''])]\<rparr>"
  by (simp add: vsm_a_def addDocuments_def wrapVectorStoreError_def new_vsm_def
      initializeStore_def Let_def doc_a_def doc_none_def doc_of_def empty_metadata_def
      truthy_def registryPush_def mintChunkId_def clock0_def string_of_nat_0 js_simps)

lemma vsm_blank_eq:
  "vsm_blank = \<lparr>vectorStore = Some [doc_blank],
                documentRegistry = [(js '' '', [js '' _chunk_0_0''])]\<rparr>"
  by (simp add: vsm_blank_def addDocuments_def wrapVectorStoreError_def new_vsm_def
      initializeStore_def Let_def doc_blank_def doc_of_def empty_metadata_def
      truthy_def registryPush_def mintChunkId_def clock0_def string_of_nat_0 js_simps)

lemma doc_ids:
  "documentId (metadata doc_a) = Some (js ''a'')" "documentId (metadata doc_none) = None"
  "documentId (metadata doc_blank) = Some (js '' '')" "documentId (metadata doc_empty) = Some []"
  by (simp_all add: doc_a_def doc_none_def doc_blank_def doc_empty_def doc_of_def
      empty_metadata_def)

lemma vsm_one_eq:
  "snd (addDocuments clock0 [doc_a] new_vsm) =
     \<lparr>vectorStore = Some [doc_a], documentRegistry = [(js ''a'', [js ''a_chunk_0_0''])]\<rparr>"
  by (simp add: addDocuments_def wrapVectorStoreError_def new_vsm_def
      initializeStore_def Let_def doc_ids truthy_def registryPush_def mintChunkId_def
      clock0_def string_of_nat_0 js_simps)

section \<open>The registry and the store\<close>

lemma map_of_registryPush:
  "map_of (registryPush d c reg) =
     (map_of reg)(d \<mapsto> (case map_of reg d of None \<Rightarrow> [] | Some xs \<Rightarrow> xs) @ [c])"
  by (auto simp: registryPush_def Let_def AList.update_conv' split: option.splits)

lemma chunkCount_registryPush:
  "chunkCount (registryPush d c reg) e = chunkCount reg e + (if e = d then 1 else 0)"
  by (auto simp: chunkCount_def map_of_registryPush split: option.splits)

lemma registerChunks_ids:
  "length (fst (registerChunks now i docs (ids, reg))) = length ids + length docs"
  by (induction docs arbitrary: i ids reg) (auto simp: Let_def)

lemma registerChunks_count:
  "d \<noteq> [] \<Longrightarrow>
   chunkCount (snd (registerChunks now i docs (ids, reg))) d =
     chunkCount reg d + length (chunksOf d docs)"
proof (induction docs arbitrary: i ids reg)
  case Nil
  then show ?case by (simp add: chunksOf_def)
next
  case (Cons doc docs)
  then show ?case
    by (cases "documentId (metadata doc)")
       (auto simp: Let_def truthy_def chunkCount_registryPush chunksOf_def)
qed

lemma registerChunks_untracked:
  "untracked docs = docs \<Longrightarrow> snd (registerChunks now i docs (ids, reg)) = reg"
proof -
  have "\<forall>doc \<in> set docs. \<not> truthy (documentId (metadata doc)) \<Longrightarrow>
        snd (registerChunks now i docs (ids, reg)) = reg"
    by (induction docs arbitrary: i ids reg) (auto simp: Let_def split: option.splits)
  then show "untracked docs = docs \<Longrightarrow> snd (registerChunks now i docs (ids, reg)) = reg"
    by (simp add: untracked_def filter_id_conv)
qed

lemma getDocumentChunkCount_chunkCount:
  "getDocumentChunkCount s d = chunkCount (documentRegistry s) d"
  by (simp add: getDocumentChunkCount_def chunkCount_def)

lemma addDocuments_vectorStore:
  "vectorStore (snd (addDocuments now documents s)) = Some (storeDocs s @ documents)"
  by (auto simp: addDocuments_def wrapVectorStoreError_def Let_def storeDocs_def
      initializeStore_def split: option.splits)

lemma addDocuments_untracked:
  "untracked documents = documents \<Longrightarrow>
   documentRegistry (snd (addDocuments now documents s)) = documentRegistry s"
  using registerChunks_untracked[of documents now 0 "[]" "documentRegistry s"]
  by (auto simp: addDocuments_def wrapVectorStoreError_def Let_def initializeStore_def
      split: option.splits)

lemma untracked_not_counted:
  assumes "untracked documents = documents"
  shows "getStoreStats (snd (addDocuments now documents s)) = getStoreStats s
         \<and> hasDocument (snd (addDocuments now documents s)) d = hasDocument s d
         \<and> getDocumentChunkCount (snd (addDocuments now documents s)) d
              = getDocumentChunkCount s d
         \<and> untracked (storeDocs (snd (addDocuments now documents s)))
              = untracked (storeDocs s) @ documents"
  using addDocuments_untracked[OF assms, of now s] assms
    addDocuments_vectorStore[of now documents s]
  by (simp add: getStoreStats_def getStoredDocumentIds_def hasDocument_def
      getDocumentChunkCount_def storeDocs_def untracked_def)

lemma untracked_replicate: "untracked (replicate n doc_none) = replicate n doc_none"
  by (simp add: untracked_def doc_ids truthy_def)

lemma vsm_big_vectorStore: "vectorStore vsm_big = Some (doc_a # replicate 10000 doc_none)"
  by (simp add: vsm_big_def addDocuments_vectorStore vsm_one_eq storeDocs_def)

lemma vsm_big_registry: "documentRegistry vsm_big = [(js ''a'', [js ''a_chunk_0_0''])]"
  by (simp add: vsm_big_def addDocuments_untracked untracked_replicate vsm_one_eq)

lemma untracked_filter_other:
  "\<not> blank d \<Longrightarrow>
   untracked (filter (\<lambda>doc. documentId (metadata doc) \<noteq> Some d) docs) = untracked docs"
  by (induction docs) (auto simp: untracked_def truthy_def blank_def split: option.splits)

text \<open>
  As long as the store holds at most 10000 chunks and the ranking only reorders them,
  \<open>deleteDocument\<close> keeps every chunk that has no truthy documentId.
\<close>

lemma deleteDocument_keeps_untracked_below_cap:
  assumes "length (storeDocs s) \<le> 10000"
    and "mset (rank [] (storeDocs s)) = mset (storeDocs s)"
  shows "mset (untracked (storeDocs (snd (deleteDocument rank d s))))
           = mset (untracked (storeDocs s))"
proof (cases "fst (deleteDocument rank d s) = Inr True")
  case False
  then have "storeDocs (snd (deleteDocument rank d s)) = storeDocs s"
    by (auto simp: deleteDocument_def wrapVectorStoreError_def Let_def storeDocs_def
        initializeStore_def split: option.splits if_splits)
  then show ?thesis
    by simp
next
  case True
  then have nb: "\<not> blank d"
    by (auto simp: deleteDocument_def wrapVectorStoreError_def Let_def split: if_splits)
  from assms(2) have "size (mset (rank [] (storeDocs s))) = size (mset (storeDocs s))"
    by simp
  with assms(1) have everything: "take 10000 (rank [] (storeDocs s)) = rank [] (storeDocs s)"
    by simp
  from True nb have
    "storeDocs (snd (deleteDocument rank d s)) =
       filter (\<lambda>doc. documentId (metadata doc) \<noteq> Some d) (take 10000 (rank [] (storeDocs s)))"
    by (auto simp: deleteDocument_def wrapVectorStoreError_def Let_def storeDocs_def
        initializeStore_def mvs_similaritySearch_def split: option.splits if_splits)
  with nb everything have
    "untracked (storeDocs (snd (deleteDocument rank d s))) = untracked (rank [] (storeDocs s))"
    by (simp add: untracked_filter_other)
  moreover have "mset (untracked (rank [] (storeDocs s))) = mset (untracked (storeDocs s))"
    using assms(2) by (simp add: untracked_def)
  ultimately show ?thesis
    by simp
qed

text \<open>
  C10. A chunk added without a truthy documentId enters the store and no registry entry
  (\<open>untracked_not_counted\<close>), and no \<open>deleteDocument\<close> should remove it
  (\<open>deleteDocument_keeps_untracked_below_cap\<close>). The code rebuilds
  the store from \<open>similaritySearch("", 10000)\<close>, the first 10000 chunks of the ranking, not
  from all of them: in a store of 10001 chunks, one of document \<open>a\<close> and 10000 without
  documentId, \<open>deleteDocument("a")\<close> returns \<open>true\<close> and leaves 9999 of the 10000.
\<close>

theorem deleteDocument_drops_untracked_chunk:
  "storeDocs vsm_big = doc_a # replicate 10000 doc_none
   \<and> length (untracked (storeDocs vsm_big)) = 10000
   \<and> getStoredDocumentIds vsm_big = [js ''a'']
   \<and> fst (deleteDocument rank_id (js ''a'') vsm_big) = Inr True
   \<and> storeDocs (snd (deleteDocument rank_id (js ''a'') vsm_big)) = replicate 9999 doc_none
   \<and> length (untracked (storeDocs (snd (deleteDocument rank_id (js ''a'') vsm_big)))) = 9999"
proof -
  have d: "deleteDocument rank_id (js ''a'') vsm_big =
             (Inr True,
              vsm_big\<lparr>vectorStore := Some (replicate 9999 doc_none), documentRegistry := []\<rparr>)"
    by (simp add: deleteDocument_def wrapVectorStoreError_def blank_simps vsm_big_vectorStore
        vsm_big_registry Let_def mvs_similaritySearch_def rank_id_def doc_ids js_simps)
  show ?thesis
    by (simp add: d vsm_big_vectorStore untracked_def doc_ids truthy_def storeDocs_def
        getStoredDocumentIds_def vsm_big_registry js_simps)
qed

text \<open>
  C1, as the code has it. For a documentId \<open>d\<close> that is not blank: if \<open>d\<close> is not in the
  registry (or maps to no chunk ids), \<open>deleteDocument\<close> returns \<open>false\<close> and the registry
  and the content of the store are as before; if \<open>d\<close> is in the registry, it returns
  \<open>true\<close>, afterwards \<open>hasDocument(d)\<close> is false and the store holds no chunk of \<open>d\<close>.
  For a blank \<open>d\<close> (empty, or white space only) it throws a \<open>VectorStoreError\<close>, whether
  \<open>d\<close> is registered or not, and registry and store content are as before.
\<close>

theorem deleteDocument_registered_or_not:
  "(\<not> blank d \<and> (\<not> hasDocument s d \<or> getDocumentChunkCount s d = 0) \<longrightarrow>
      fst (deleteDocument rank d s) = Inr False
      \<and> documentRegistry (snd (deleteDocument rank d s)) = documentRegistry s
      \<and> storeDocs (snd (deleteDocument rank d s)) = storeDocs s)
   \<and> (\<not> blank d \<and> hasDocument s d \<and> getDocumentChunkCount s d \<noteq> 0 \<longrightarrow>
      fst (deleteDocument rank d s) = Inr True
      \<and> \<not> hasDocument (snd (deleteDocument rank d s)) d
      \<and> chunksOf d (storeDocs (snd (deleteDocument rank d s))) = [])
   \<and> (blank d \<longrightarrow>
      fst (deleteDocument rank d s) =
        Inl (VectorStoreError
               [Txt ''Failed to delete document: '', Txt ''Document ID cannot be empty''])
      \<and> documentRegistry (snd (deleteDocument rank d s)) = documentRegistry s
      \<and> storeDocs (snd (deleteDocument rank d s)) = storeDocs s)"
  by (auto simp: deleteDocument_def wrapVectorStoreError_def hasDocument_def
      getDocumentChunkCount_def Let_def storeDocs_def initializeStore_def chunksOf_def
      AList.delete_conv' filter_empty_conv split: option.splits)

theorem deleteDocument_registered_or_not_witness:
  "\<not> blank (js ''a'') \<and> hasDocument vsm_a (js ''a'')
   \<and> getDocumentChunkCount vsm_a (js ''a'') \<noteq> 0
   \<and> fst (deleteDocument rank_id (js ''a'') vsm_a) = Inr True
   \<and> \<not> hasDocument (snd (deleteDocument rank_id (js ''a'') vsm_a)) (js ''a'')
   \<and> chunksOf (js ''a'') (storeDocs (snd (deleteDocument rank_id (js ''a'') vsm_a))) = []
   \<and> \<not> blank (js ''b'') \<and> \<not> hasDocument vsm_a (js ''b'')
   \<and> fst (deleteDocument rank_id (js ''b'') vsm_a) = Inr False
   \<and> documentRegistry (snd (deleteDocument rank_id (js ''b'') vsm_a)) = documentRegistry vsm_a
   \<and> storeDocs (snd (deleteDocument rank_id (js ''b'') vsm_a)) = storeDocs vsm_a
   \<and> blank []
   \<and> fst (deleteDocument rank_id [] vsm_a) =
        Inl (VectorStoreError
               [Txt ''Failed to delete document: '', Txt ''Document ID cannot be empty''])
   \<and> blank nbsp
   \<and> fst (deleteDocument rank_id nbsp vsm_a) =
        Inl (VectorStoreError
               [Txt ''Failed to delete document: '', Txt ''Document ID cannot be empty''])"
  using deleteDocument_registered_or_not[of "js ''a''" vsm_a rank_id]
    deleteDocument_registered_or_not[of "js ''b''" vsm_a rank_id]
    deleteDocument_registered_or_not[of "[]" vsm_a rank_id]
    deleteDocument_registered_or_not[of nbsp vsm_a rank_id]
  by (simp add: blank_simps vsm_a_eq hasDocument_def getDocumentChunkCount_def js_simps)

text \<open>
  The documentId \<open>" "\<close> is not registered in \<open>vsm_a\<close>, and \<open>deleteDocument\<close> of it
  throws instead of returning \<open>false\<close>; it is registered in \<open>vsm_blank\<close>, and
  \<open>deleteDocument\<close> of it throws instead of returning \<open>true\<close>.
\<close>

theorem deleteDocument_blank_counterexample:
  "\<not> hasDocument vsm_a (js '' '')
   \<and> fst (deleteDocument rank_id (js '' '') vsm_a) =
        Inl (VectorStoreError
               [Txt ''Failed to delete document: '', Txt ''Document ID cannot be empty''])
   \<and> fst (deleteDocument rank_id (js '' '') vsm_a) \<noteq> Inr False
   \<and> hasDocument vsm_blank (js '' '') \<and> getDocumentChunkCount vsm_blank (js '' '') = 1
   \<and> fst (deleteDocument rank_id (js '' '') vsm_blank) =
        Inl (VectorStoreError
               [Txt ''Failed to delete document: '', Txt ''Document ID cannot be empty''])
   \<and> fst (deleteDocument rank_id (js '' '') vsm_blank) \<noteq> Inr True"
  by (simp add: vsm_a_eq vsm_blank_eq hasDocument_def getDocumentChunkCount_def
      deleteDocument_def wrapVectorStoreError_def blank_simps js_simps)

text \<open>
  C6, as the code has it. \<open>addDocuments([])\<close> returns \<open>[]\<close> and leaves the registry and
  the content of the store as they are. Every \<open>addDocuments(chunks)\<close> returns one minted id
  per chunk of the batch and appends the batch to the store, and for every documentId \<open>d\<close>
  other than the empty string \<open>getDocumentChunkCount(d)\<close> grows by exactly the number of
  chunks of the batch whose \<open>metadata.documentId\<close> is \<open>d\<close>.
\<close>

theorem addDocuments_counts:
  "fst (addDocuments now [] s) = Inr []
   \<and> documentRegistry (snd (addDocuments now [] s)) = documentRegistry s
   \<and> storeDocs (snd (addDocuments now [] s)) = storeDocs s
   \<and> (\<exists>ids. fst (addDocuments now documents s) = Inr ids \<and> length ids = length documents)
   \<and> storeDocs (snd (addDocuments now documents s)) = storeDocs s @ documents
   \<and> (d \<noteq> [] \<longrightarrow>
        getDocumentChunkCount (snd (addDocuments now documents s)) d =
          getDocumentChunkCount s d + length (chunksOf d documents))"
  using registerChunks_count[of d now 0 documents "[]" "documentRegistry s"]
    registerChunks_ids[of now 0 documents "[]" "documentRegistry s"]
  by (auto simp: getDocumentChunkCount_chunkCount addDocuments_def wrapVectorStoreError_def
      Let_def storeDocs_def initializeStore_def chunksOf_def split: option.splits)

theorem addDocuments_counts_witness:
  "js ''a'' \<noteq> [] \<and> length (chunksOf (js ''a'') [doc_a, doc_none]) = 1
   \<and> getDocumentChunkCount new_vsm (js ''a'') = 0
   \<and> getDocumentChunkCount (snd (addDocuments clock0 [doc_a, doc_none] new_vsm)) (js ''a'') = 1
   \<and> storeDocs (snd (addDocuments clock0 [doc_a, doc_none] new_vsm)) = [doc_a, doc_none]"
  using addDocuments_counts[of clock0 new_vsm "[doc_a, doc_none]" "js ''a''"]
  by (simp add: chunksOf_def doc_ids getDocumentChunkCount_def new_vsm_def storeDocs_def js_simps)

text \<open>
  A chunk whose documentId is the empty string is in the batch, and the count of the empty
  documentId does not grow.
\<close>

theorem addDocuments_empty_id_counterexample:
  "length (chunksOf [] [doc_empty]) = 1
   \<and> fst (addDocuments clock0 [doc_empty] new_vsm) = Inr [js ''_chunk_0_0'']
   \<and> getDocumentChunkCount (snd (addDocuments clock0 [doc_empty] new_vsm)) []
        \<noteq> getDocumentChunkCount new_vsm [] + length (chunksOf [] [doc_empty])"
  by (simp add: chunksOf_def doc_ids getDocumentChunkCount_def new_vsm_def addDocuments_def
      wrapVectorStoreError_def initializeStore_def Let_def truthy_def mintChunkId_def
      clock0_def string_of_nat_0 js_simps)

text \<open>
  C7, as the code has it. For every registered documentId and every query, neither of them
  blank, and \<open>k \<ge> 1\<close>, \<open>searchWithinDocument\<close> runs one search of the whole store for
  \<open>k * 3\<close> candidates, keeps the candidates of that document and cuts the list after the
  first \<open>k\<close>: every chunk returned belongs to the document and at most \<open>k\<close> are returned.
\<close>

theorem searchWithinDocument_overfetch:
  assumes "\<not> blank d" and "\<not> blank q" and "hasDocument s d" and "1 \<le> k"
  shows "fst (searchWithinDocument rank d q k s) =
           Inr (take k (chunksOf d (mvs_similaritySearch rank (storeDocs s) q (k * 3))))
         \<and> length (take k (chunksOf d (mvs_similaritySearch rank (storeDocs s) q (k * 3)))) \<le> k
         \<and> chunksOf d (take k (chunksOf d (mvs_similaritySearch rank (storeDocs s) q (k * 3))))
             = take k (chunksOf d (mvs_similaritySearch rank (storeDocs s) q (k * 3)))"
proof -
  have "fst (searchWithinDocument rank d q k s) =
           Inr (take k (chunksOf d (mvs_similaritySearch rank (storeDocs s) q (k * 3))))"
    using assms
    by (auto simp: searchWithinDocument_def wrapVectorStoreError_def Let_def hasDocument_def
        storeDocs_def initializeStore_def chunksOf_def split: option.splits)
  moreover have "chunksOf d (take k (chunksOf d xs)) = take k (chunksOf d xs)" for xs
    by (auto simp: chunksOf_def filter_id_conv dest: in_set_takeD)
  ultimately show ?thesis by simp
qed

text \<open>The search below asks for two chunks of document \<open>a\<close> and gets one.\<close>

theorem searchWithinDocument_overfetch_witness:
  "\<not> blank (js ''a'') \<and> \<not> blank (js ''q'') \<and> hasDocument vsm_a (js ''a'') \<and> (1::nat) \<le> 2
   \<and> fst (searchWithinDocument rank_id (js ''a'') (js ''q'') 2 vsm_a) = Inr [doc_a]"
  using searchWithinDocument_overfetch[of "js ''a''" "js ''q''" vsm_a 2 rank_id]
  by (simp add: blank_simps vsm_a_eq hasDocument_def storeDocs_def mvs_similaritySearch_def
      rank_id_def chunksOf_def doc_ids js_simps)

text \<open>
  The documentId \<open>" "\<close> is registered, the query is not empty and \<open>k = 1\<close>, and the search
  throws.
\<close>

theorem searchWithinDocument_blank_counterexample:
  "hasDocument vsm_blank (js '' '') \<and> js ''q'' \<noteq> [] \<and> (1::nat) \<le> 1
   \<and> fst (searchWithinDocument rank_id (js '' '') (js ''q'') 1 vsm_blank) =
        Inl (VectorStoreError
               [Txt ''Failed to search within document: '', Txt ''Document ID cannot be empty''])"
  by (simp add: vsm_blank_eq hasDocument_def searchWithinDocument_def wrapVectorStoreError_def
      blank_simps js_simps)

section \<open>Answers: confidence and sources\<close>

lemma foldl_add_sum_list: "foldl (\<lambda>sum sc. sum + sc) a xs = a + sum_list (xs :: real list)"
  by (induction xs arbitrary: a) auto

lemma scores_eq:
  "map the (filter (\<lambda>sc. sc \<noteq> None) (map (\<lambda>doc. score (metadata doc)) documents))
     = scoresPresent documents"
  by (induction documents) (auto simp: scoresPresent_def List.map_filter_def)

lemma doc_scores:
  "score (metadata (doc_scored r)) = Some r" "score (metadata doc_none) = None"
  "score (metadata doc_a) = None"
  by (simp_all add: doc_scored_def doc_none_def doc_a_def doc_of_def empty_metadata_def)

lemma doc_none_fields:
  "pageContent doc_none = js ''nobody''" "chunkIndex (metadata doc_none) = None"
  "filename (metadata doc_none) = None"
  by (simp_all add: doc_none_def doc_of_def empty_metadata_def)

lemma doc_full_fields:
  "pageContent doc_full = js ''full''" "documentId (metadata doc_full) = Some []"
  "filename (metadata doc_full) = Some (js ''b.txt'')" "chunkIndex (metadata doc_full) = Some 7"
  "score (metadata doc_full) = Some 0"
  by (simp_all add: doc_full_def)

lemma scoresPresent_simps:
  "scoresPresent [] = []"
  "scoresPresent (doc # docs) =
     (case score (metadata doc) of None \<Rightarrow> scoresPresent docs
      | Some r \<Rightarrow> r # scoresPresent docs)"
  unfolding scoresPresent_def by (simp_all add: List.map_filter_simps)

text \<open>
  C2. \<open>calculateConfidence\<close> returns 0 on the empty list; when some retrieved chunk carries
  a score, the mean of the scores present, clamped to the interval from 0 to 1; when no
  chunk carries a score, \<open>min(count / 4, 1) * 0.8\<close> for the number \<open>count\<close> of chunks.
\<close>

theorem calculateConfidence_cases:
  "(documents = [] \<longrightarrow> calculateConfidence documents = 0)
   \<and> (scoresPresent documents \<noteq> [] \<longrightarrow>
        calculateConfidence documents =
          min 1 (max 0 (sum_list (scoresPresent documents)
                          / real (length (scoresPresent documents)))))
   \<and> (documents \<noteq> [] \<and> scoresPresent documents = [] \<longrightarrow>
        calculateConfidence documents = min (real (length documents) / 4) 1 * 0.8)"
proof -
  have ne: "scoresPresent documents \<noteq> [] \<Longrightarrow> documents \<noteq> []"
    by (auto simp: scoresPresent_def List.map_filter_def)
  show ?thesis
    unfolding calculateConfidence_def scores_eq
    using ne
    by (auto simp: foldl_add_sum_list Let_def)
qed

theorem calculateConfidence_cases_witness:
  "calculateConfidence [] = 0
   \<and> scoresPresent [doc_scored 0.5, doc_none, doc_scored 0.25] = [0.5, 0.25]
   \<and> calculateConfidence [doc_scored 0.5, doc_none, doc_scored 0.25] = 0.375
   \<and> scoresPresent [doc_scored 1.5, doc_scored 1] \<noteq> []
   \<and> calculateConfidence [doc_scored 1.5, doc_scored 1] = 1
   \<and> [doc_none] \<noteq> [] \<and> scoresPresent [doc_none] = []
   \<and> calculateConfidence [doc_none] = 0.2"
  using calculateConfidence_cases[of "[]"]
    calculateConfidence_cases[of "[doc_scored 0.5, doc_none, doc_scored 0.25]"]
    calculateConfidence_cases[of "[doc_scored 1.5, doc_scored 1]"]
    calculateConfidence_cases[of "[doc_none]"]
  by (simp add: scoresPresent_simps doc_scores)

text \<open>
  C8. \<open>formatSourceDocuments\<close> maps the chunk at position \<open>i\<close> to a source made of
  documentId, filename, content, chunkIndex and relevanceScore, and keeps the number of
  chunks. The content is the chunk's text. The documentId is the one of the metadata, and
  \<open>unknown_i\<close> when the metadata has none or an empty one. The filename is the one of the
  metadata, and \<open>Unknown\<close> when the metadata has none or an empty one. The chunkIndex is the
  one of the metadata, and \<open>i\<close> when the metadata has none. The relevanceScore is the score
  of the metadata, also when that is 0, and 1 when the metadata has none.
\<close>

theorem formatSourceDocuments_positions:
  assumes "i < length documents"
  shows "length (formatSourceDocuments documents) = length documents
         \<and> sd_content (formatSourceDocuments documents ! i) = pageContent (documents ! i)
         \<and> sd_documentId (formatSourceDocuments documents ! i) =
             (case documentId (metadata (documents ! i)) of
                None \<Rightarrow> js ''unknown_'' @ js (string_of_nat i)
              | Some d \<Rightarrow> if d = [] then js ''unknown_'' @ js (string_of_nat i) else d)
         \<and> sd_filename (formatSourceDocuments documents ! i) =
             (case filename (metadata (documents ! i)) of
                None \<Rightarrow> js ''Unknown''
              | Some f \<Rightarrow> if f = [] then js ''Unknown'' else f)
         \<and> sd_chunkIndex (formatSourceDocuments documents ! i) =
             (case chunkIndex (metadata (documents ! i)) of None \<Rightarrow> i | Some c \<Rightarrow> c)
         \<and> sd_relevanceScore (formatSourceDocuments documents ! i) =
             (case score (metadata (documents ! i)) of None \<Rightarrow> 1 | Some r \<Rightarrow> r)"
  using assms
  by (auto simp: formatSourceDocuments_def formatSourceDocument_def nth_enumerate_eq
      truthy_def split: option.splits)

lemma string_of_nat_1: "string_of_nat (Suc 0) = ''1''"
  by code_simp

lemma formatSourceDocuments_two:
  "formatSourceDocuments [doc_full, doc_none] =
     [\<lparr>sd_documentId = js ''unknown_0'', sd_filename = js ''b.txt'', sd_content = js ''full'',
       sd_chunkIndex = 7, sd_relevanceScore = 0\<rparr>,
      \<lparr>sd_documentId = js ''unknown_1'', sd_filename = js ''Unknown'',
       sd_content = js ''nobody'', sd_chunkIndex = 1, sd_relevanceScore = 1\<rparr>]"
  by (simp add: formatSourceDocuments_def formatSourceDocument_def doc_ids doc_scores
      doc_none_fields doc_full_fields truthy_def string_of_nat_0 string_of_nat_1 js_simps)

theorem formatSourceDocuments_positions_witness:
  "(0::nat) < length [doc_full, doc_none] \<and> (1::nat) < length [doc_full, doc_none]
   \<and> length (formatSourceDocuments [doc_full, doc_none]) = 2
   \<and> sd_documentId (formatSourceDocuments [doc_full, doc_none] ! 0) = js ''unknown_0''
   \<and> sd_filename (formatSourceDocuments [doc_full, doc_none] ! 0) = js ''b.txt''
   \<and> sd_chunkIndex (formatSourceDocuments [doc_full, doc_none] ! 0) = 7
   \<and> sd_relevanceScore (formatSourceDocuments [doc_full, doc_none] ! 0) = 0
   \<and> sd_content (formatSourceDocuments [doc_full, doc_none] ! 0) = js ''full''
   \<and> sd_documentId (formatSourceDocuments [doc_full, doc_none] ! 1) = js ''unknown_1''
   \<and> sd_filename (formatSourceDocuments [doc_full, doc_none] ! 1) = js ''Unknown''
   \<and> sd_chunkIndex (formatSourceDocuments [doc_full, doc_none] ! 1) = 1
   \<and> sd_relevanceScore (formatSourceDocuments [doc_full, doc_none] ! 1) = 1
   \<and> sd_content (formatSourceDocuments [doc_full, doc_none] ! 1) = js ''nobody''"
  using formatSourceDocuments_positions[of 0 "[doc_full, doc_none]"]
    formatSourceDocuments_positions[of 1 "[doc_full, doc_none]"]
  by (simp add: formatSourceDocuments_two)

section \<open>Chunking and ingestion\<close>

lemma trim_Nil: "trim [] = []"
  by (simp add: trim_def)

lemma trim_hello: "trim (js '' hello world '') = js ''hello world''"
  by (simp add: trim_def is_space_def js_def)

lemma trim_nbsp_hi: "trim nbsp_hi = js ''hi''"
  by (simp add: trim_def is_space_def js_def nbsp_hi_def)

lemma le_default_chunkSize:
  "le (fin (real (length (js ''hello world'')))) (chunkSize DEFAULT_CONFIG)"
  "le (fin (real (length (js ''hi'')))) (chunkSize DEFAULT_CONFIG)"
  by (simp_all add: le_def fin_def toNumber_def DEFAULT_CONFIG_def js_def)

text \<open>
  C5. For every text that is not empty after trimming and whose trimmed length is at most
  \<open>chunkSize\<close>, \<open>splitText\<close> returns exactly one chunk: its content is the trimmed text and
  its metadata is the caller's, with \<open>chunkIndex\<close> 0 and \<open>totalChunks\<close> 1 written over it.
\<close>

theorem splitText_single_chunk:
  assumes "trim T \<noteq> []" and "le (fin (real (length (trim T)))) (chunkSize config)"
  shows "splitText createDocs T config md =
           Inr [\<lparr>pageContent = trim T,
                  metadata = md\<lparr>chunkIndex := Some 0, totalChunks := Some 1\<rparr>\<rparr>]"
proof -
  from assms(1) have "T \<noteq> []"
    using trim_Nil by auto
  with assms show ?thesis
    by (simp add: splitText_def rethrowDocumentProcessingError_def Let_def)
qed

text \<open>
  A text between spaces, and a text between a no-break space and an em space (U+2003).
\<close>

theorem splitText_single_chunk_witness:
  "trim (js '' hello world '') \<noteq> []
   \<and> le (fin (real (length (trim (js '' hello world ''))))) (chunkSize DEFAULT_CONFIG)
   \<and> splitText (createDocuments io_ok) (js '' hello world '') DEFAULT_CONFIG
        (chunkMetadata (js ''id-1'') loaded_txt) =
        Inr [\<lparr>pageContent = js ''hello world'',
               metadata = \<lparr>documentId = Some (js ''id-1''), filename = Some (js ''a.txt''),
                 fileType = Some (js ''txt''), fileSize = Some 13, pageCount = None,
                 chunkIndex = Some 0, totalChunks = Some 1, score = None\<rparr>\<rparr>]
   \<and> trim nbsp_hi \<noteq> []
   \<and> le (fin (real (length (trim nbsp_hi)))) (chunkSize DEFAULT_CONFIG)
   \<and> splitText (createDocuments io_ok) nbsp_hi DEFAULT_CONFIG empty_metadata =
        Inr [\<lparr>pageContent = js ''hi'',
               metadata = empty_metadata\<lparr>chunkIndex := Some 0, totalChunks := Some 1\<rparr>\<rparr>]"
  using splitText_single_chunk[of "js '' hello world ''" DEFAULT_CONFIG "createDocuments io_ok"
      "chunkMetadata (js ''id-1'') loaded_txt"]
    splitText_single_chunk[of nbsp_hi DEFAULT_CONFIG "createDocuments io_ok" empty_metadata]
  by (simp add: trim_hello trim_nbsp_hi le_default_chunkSize chunkMetadata_def loaded_txt_def
      js_simps)

lemma updateProgress_same:
  "states docId = Some state \<Longrightarrow>
   \<exists>state'. updateProgress docId st pr err states docId = Some state'
     \<and> status state' = st \<and> progress state' = pr
     \<and> is_chunks state' = is_chunks state \<and> is_metadata state' = is_metadata state"
  by (auto simp: updateProgress_def Let_def split: option.splits)

lemma ingestSteps_tracked:
  assumes "st0 docId = Some state"
  shows "\<exists>state'. snd (ingestSteps io date docId fp cfg mfs st0) docId = Some state'"
  using assms
  by (auto simp: ingestSteps_def Let_def updateProgress_def split: sum.splits option.splits)

lemma ingestSteps_fail:
  "pipeline io docId fp cfg mfs = Inl e \<Longrightarrow>
   fst (ingestSteps io date docId fp cfg mfs st0) = Inl e"
  by (auto simp: ingestSteps_def pipeline_def andThen_def Let_def split: sum.splits)

lemma ingestSteps_ok:
  assumes "pipeline io docId fp cfg mfs = Inr chunks" and "st0 docId = Some state"
  shows "fst (ingestSteps io date docId fp cfg mfs st0) =
           Inr \<lparr>success = True, ir_documentId = docId, ir_chunkCount = length chunks,
                ir_error = None\<rparr>
         \<and> (\<exists>state'. snd (ingestSteps io date docId fp cfg mfs st0) docId = Some state'
               \<and> status state' = Completed \<and> progress state' = 100
               \<and> is_chunks state' = Some chunks)"
  using assms
  by (auto simp: ingestSteps_def pipeline_def andThen_def Let_def updateProgress_def
      split: sum.splits option.splits)

text \<open>
  C4. \<open>ingestDocument\<close> always returns an \<open>IngestResult\<close> and never throws. When validation,
  loading or chunking fails with an error \<open>e\<close>, the result is \<open>success = false\<close> with the
  minted documentId, \<open>chunkCount = 0\<close> and the message of \<open>e\<close>, and the state of the
  document is \<open>failed\<close>. When they succeed with \<open>chunks\<close>, the result is \<open>success = true\<close>
  with the minted documentId and \<open>chunkCount\<close> the number of chunks, and the state of the
  document is \<open>completed\<close> at progress 100, holding the chunks.
\<close>

theorem ingestDocument_never_throws:
  "(\<exists>r. fst (ingestDocument io uuid date fp cfg mfs states) = Inr r)
   \<and> (pipeline io uuid fp cfg mfs = Inl e \<longrightarrow>
         fst (ingestDocument io uuid date fp cfg mfs states) =
           Inr \<lparr>success = False, ir_documentId = uuid, ir_chunkCount = 0,
                ir_error = Some (message_of e)\<rparr>
         \<and> (\<exists>state. snd (ingestDocument io uuid date fp cfg mfs states) uuid = Some state
               \<and> status state = Failed))
   \<and> (pipeline io uuid fp cfg mfs = Inr chunks \<longrightarrow>
         fst (ingestDocument io uuid date fp cfg mfs states) =
           Inr \<lparr>success = True, ir_documentId = uuid, ir_chunkCount = length chunks,
                ir_error = None\<rparr>
         \<and> (\<exists>state. snd (ingestDocument io uuid date fp cfg mfs states) uuid = Some state
               \<and> status state = Completed \<and> progress state = 100
               \<and> is_chunks state = Some chunks))"
proof -
  let ?init = "\<lparr>is_documentId = uuid, status = Processing, progress = 0, is_error = None,
                 is_metadata = None, is_chunks = None\<rparr>"
  let ?st0 = "states(uuid \<mapsto> ?init)"
  let ?steps = "ingestSteps io date uuid fp cfg mfs ?st0"
  have st0: "?st0 uuid = Some ?init"
    by simp
  have total: "\<exists>r. fst (ingestDocument io uuid date fp cfg mfs states) = Inr r"
    by (auto simp: ingestDocument_def Let_def split: prod.splits sum.splits)
  have fail: "fst (ingestDocument io uuid date fp cfg mfs states) =
           Inr \<lparr>success = False, ir_documentId = uuid, ir_chunkCount = 0,
                ir_error = Some (message_of e)\<rparr>
         \<and> (\<exists>state. snd (ingestDocument io uuid date fp cfg mfs states) uuid = Some state
               \<and> status state = Failed)"
    if p: "pipeline io uuid fp cfg mfs = Inl e"
  proof -
    from ingestSteps_fail[OF p] have f: "fst ?steps = Inl e" .
    from ingestSteps_tracked[of ?st0 uuid ?init io date fp cfg mfs] st0
    obtain state' where s: "snd ?steps uuid = Some state'"
      by blast
    from updateProgress_same[of "snd ?steps" uuid state' Failed 0 "Some (message_of e)"] s
    obtain state'' where
      "updateProgress uuid Failed 0 (Some (message_of e)) (snd ?steps) uuid = Some state''"
      "status state'' = Failed"
      by blast
    with f show ?thesis
      by (cases ?steps) (auto simp: ingestDocument_def Let_def)
  qed
  have ok: "fst (ingestDocument io uuid date fp cfg mfs states) =
           Inr \<lparr>success = True, ir_documentId = uuid, ir_chunkCount = length chunks,
                ir_error = None\<rparr>
         \<and> (\<exists>state. snd (ingestDocument io uuid date fp cfg mfs states) uuid = Some state
               \<and> status state = Completed \<and> progress state = 100
               \<and> is_chunks state = Some chunks)"
    if p: "pipeline io uuid fp cfg mfs = Inr chunks"
  proof -
    from ingestSteps_ok[of io uuid fp cfg mfs chunks ?st0 ?init date] p st0
    show ?thesis
      by (cases ?steps) (auto simp: ingestDocument_def Let_def)
  qed
  from total fail ok show ?thesis
    by blast
qed

lemma validateSplittingConfig_default: "validateSplittingConfig DEFAULT_CONFIG = Inr ()"
  by (simp add: validateSplittingConfig_def DEFAULT_CONFIG_def le_def lt_def ge_def fin_def
      toNumber_def)

lemma pipeline_missing:
  "pipeline io_missing (js ''id-1'') (js ''up/a.txt'') DEFAULT_CONFIG None =
     Inl (DocumentProcessingError
            [Txt ''File not found or not accessible: '', Str (js ''up/a.txt'')])"
  by (simp add: pipeline_def andThen_def io_missing_def io_ok_def
      validateSplittingConfig_default)

lemma pipeline_ok:
  "pipeline io_ok (js ''id-1'') (js ''up/a.txt'') DEFAULT_CONFIG None =
     Inr [\<lparr>pageContent = js ''hello world'',
            metadata = (chunkMetadata (js ''id-1'') loaded_txt)\<lparr>chunkIndex := Some 0,
              totalChunks := Some 1\<rparr>\<rparr>]"
  by (simp add: pipeline_def andThen_def io_ok_def validateSplittingConfig_default
      splitText_def rethrowDocumentProcessingError_def Let_def loaded_txt_def trim_hello
      le_default_chunkSize js_simps)

theorem ingestDocument_never_throws_witness:
  "pipeline io_missing (js ''id-1'') (js ''up/a.txt'') DEFAULT_CONFIG None =
     Inl (DocumentProcessingError
            [Txt ''File not found or not accessible: '', Str (js ''up/a.txt'')])
   \<and> fst (ingestDocument io_missing (js ''id-1'') 0 (js ''up/a.txt'') DEFAULT_CONFIG None
            Map.empty) =
       Inr \<lparr>success = False, ir_documentId = js ''id-1'', ir_chunkCount = 0,
            ir_error = Some [Txt ''File not found or not accessible: '', Str (js ''up/a.txt'')]\<rparr>
   \<and> fst (ingestDocument io_ok (js ''id-1'') 0 (js ''up/a.txt'') DEFAULT_CONFIG None
            Map.empty) =
       Inr \<lparr>success = True, ir_documentId = js ''id-1'', ir_chunkCount = 1, ir_error = None\<rparr>"
  using ingestDocument_never_throws[of io_missing "js ''id-1''" 0 "js ''up/a.txt''"
      DEFAULT_CONFIG None Map.empty
      "DocumentProcessingError
         [Txt ''File not found or not accessible: '', Str (js ''up/a.txt'')]"
      "[]"]
    ingestDocument_never_throws[of io_ok "js ''id-1''" 0 "js ''up/a.txt''" DEFAULT_CONFIG
      None Map.empty "Error []"
      "[\<lparr>pageContent = js ''hello world'',
         metadata = (chunkMetadata (js ''id-1'') loaded_txt)\<lparr>chunkIndex := Some 0,
           totalChunks := Some 1\<rparr>\<rparr>]"]
  by (simp add: pipeline_missing pipeline_ok)

section \<open>Configuration updates\<close>

lemma loadConfig_unset: "loadConfig nanNumber env_unset = Inr DEFAULT_CONFIG"
  by (simp add: loadConfig_def rethrowConfigurationError_def andThen_def parseNumber_def
      validateVectorStoreType_def validateOptionalString_def truthy_def env_unset_def
      DEFAULT_CONFIG_def Let_def ge_def fin_def toNumber_def)

lemma getConfig_unset:
  "getConfig nanNumber env_unset None = (Inr DEFAULT_CONFIG, Some DEFAULT_CONFIG)"
  by (simp add: getConfig_def loadConfig_unset)

lemma getConfig_stored: "getConfig Number env (Some c) = (Inr c, Some c)"
  by (simp add: getConfig_def)

lemmas compare_defs = lt_def le_def gt_def ge_def fin_def toNumber_def

text \<open>
  C3. \<open>updateConfig\<close> should fail whenever the merge of the update over the current
  configuration violates \<open>chunkOverlap < chunkSize\<close> or a validated range. It does so for
  \<open>{chunkSize: 50, chunkOverlap: 100}\<close>, and the stored configuration stays; a valid
  update of all ten keys is stored key by key, and the empty update keeps them. It does not
  for \<open>{chunkSize: NaN}\<close> nor for \<open>{chunkSize: undefined}\<close>: every comparison with NaN is
  false, so no test fires and a configuration in which \<open>chunkOverlap < chunkSize\<close> is false
  is stored and returned. Nor does it for \<open>{chunkOverlap: -5, llmMaxTokens: 0}\<close>, which it
  never tests. \<open>parseNumber\<close>, on the path of \<open>loadConfig\<close>, rejects NaN and a chunk overlap
  of \<open>-5\<close>.
\<close>

theorem updateConfig_stores_invalid:
  "updateConfig nanNumber env_unset update_bad (Some DEFAULT_CONFIG) =
     (Inl (ConfigurationError
             [Txt ''Chunk overlap ('', Num (fin 100), Txt '') must be less than chunk size ('',
              Num (fin 50), Txt '')'']),
      Some DEFAULT_CONFIG)
   \<and> updateConfig nanNumber env_unset update_all (Some DEFAULT_CONFIG) =
       (Inr config_all, Some config_all)
   \<and> updateConfig nanNumber env_unset no_update (Some config_all) =
       (Inr config_all, Some config_all)
   \<and> updateConfig nanNumber env_unset update_nan (Some DEFAULT_CONFIG) =
       (Inr (DEFAULT_CONFIG\<lparr>chunkSize := Some NaN\<rparr>),
        Some (DEFAULT_CONFIG\<lparr>chunkSize := Some NaN\<rparr>))
   \<and> \<not> lt (chunkOverlap (DEFAULT_CONFIG\<lparr>chunkSize := Some NaN\<rparr>))
            (chunkSize (DEFAULT_CONFIG\<lparr>chunkSize := Some NaN\<rparr>))
   \<and> updateConfig nanNumber env_unset update_undefined (Some DEFAULT_CONFIG) =
       (Inr (DEFAULT_CONFIG\<lparr>chunkSize := None\<rparr>), Some (DEFAULT_CONFIG\<lparr>chunkSize := None\<rparr>))
   \<and> \<not> lt (chunkOverlap (DEFAULT_CONFIG\<lparr>chunkSize := None\<rparr>))
            (chunkSize (DEFAULT_CONFIG\<lparr>chunkSize := None\<rparr>))
   \<and> updateConfig nanNumber env_unset update_negative (Some DEFAULT_CONFIG) =
       (Inr (DEFAULT_CONFIG\<lparr>chunkOverlap := fin (- 5), llmMaxTokens := fin 0\<rparr>),
        Some (DEFAULT_CONFIG\<lparr>chunkOverlap := fin (- 5), llmMaxTokens := fin 0\<rparr>))
   \<and> parseNumber nanNumber (Some (js ''abc'')) (fin 1000) (fin 100) (fin 10000) =
       Inl (ConfigurationError
              [Txt ''Invalid number value: '', Str (js ''abc''),
               Txt ''. Expected a valid number.''])
   \<and> parseNumber minusFive (Some (js ''-5'')) (fin 200) (fin 0) (fin 5000) =
       Inl (ConfigurationError
              [Txt ''Value '', Num (fin (- 5)), Txt '' is below minimum allowed value of '',
               Num (fin 0)])"
  by (simp add: updateConfig_def getConfig_stored mergeConfig_def spread_def Let_def
      update_bad_def update_nan_def update_undefined_def update_negative_def no_update_def
      update_all_def config_all_def
      DEFAULT_CONFIG_def compare_defs parseNumber_def nanNumber_def minusFive_def truthy_def
      js_simps)

section \<open>The chains of the query engine\<close>

lemma updateLlm_frame:
  "qaChain (updateLlm config rc qc e) = qaChain e"
  "conversationalChain (updateLlm config rc qc e) = conversationalChain e"
  "llm (updateLlm config rc (mergeQAConfig config rc) e) = llmFor config rc (llm e)"
  by (auto simp: updateLlm_def llmFor_def mergeQAConfig_def)

lemma mergeQAConfig_topK:
  "qa_topK (mergeQAConfig config rc) = orElse (opt o_topK config) (topK rc)"
  by (simp add: mergeQAConfig_def)

lemma askQuestion_reuse:
  assumes "qaChain e = Some c"
  shows "qaChain (snd (snd (askQuestion Number env invoke t0 t1 q config (ci, e)))) = Some c"
  using assms
  by (auto simp: askQuestion_def Let_def updateLlm_frame
      split: prod.splits sum.splits option.splits)

lemma askWithHistory_reuse:
  assumes "conversationalChain e = Some c"
  shows "conversationalChain
           (snd (snd (askWithHistory Number env invoke t0 t1 q h config (ci, e)))) = Some c"
  using assms
  by (auto simp: askWithHistory_def Let_def updateLlm_frame
      split: prod.splits sum.splits option.splits)

lemma askQuestion_uses:
  assumes "qaChain e = Some c" and "\<not> blank q" and "fst (getConfig Number env ci) = Inr rc"
  shows "fst (askQuestion Number env invoke t0 t1 q config (ci, e)) =
           rethrowQA ''Failed to process question: ''
             (case invoke c q None of Inl err \<Rightarrow> Inl err
              | Inr result \<Rightarrow> Inr (makeResponse t0 t1 result))
         \<and> llm (snd (snd (askQuestion Number env invoke t0 t1 q config (ci, e))))
             = llmFor config rc (llm e)"
  using assms
  by (auto simp: askQuestion_def Let_def updateLlm_frame
      split: prod.splits sum.splits option.splits)

lemma askWithHistory_uses:
  assumes "conversationalChain e = Some c" and "\<not> blank q"
    and "fst (getConfig Number env ci) = Inr rc"
  shows "fst (askWithHistory Number env invoke t0 t1 q h config (ci, e)) =
           rethrowQA ''Failed to process question with history: ''
             (case invoke c q (Some (formatHistory h)) of Inl err \<Rightarrow> Inl err
              | Inr result \<Rightarrow> Inr (makeResponse t0 t1 result))
         \<and> llm (snd (snd (askWithHistory Number env invoke t0 t1 q h config (ci, e))))
             = llmFor config rc (llm e)"
  using assms
  by (auto simp: askWithHistory_def Let_def updateLlm_frame
      split: prod.splits sum.splits option.splits)

lemma askQuestion_builds:
  assumes "qaChain e = None" and "\<not> blank q" and "fst (getConfig Number env ci) = Inr rc"
  shows "qaChain (snd (snd (askQuestion Number env invoke t0 t1 q config (ci, e)))) =
           Some \<lparr>retriever_k = orElse (opt o_topK config) (topK rc),
                 chain_llm = llmFor config rc (llm e), history_aware = False\<rparr>"
  using assms
  by (auto simp: askQuestion_def Let_def updateLlm_frame initializeQAChain_def buildChain_def
      initializeStore_def mergeQAConfig_topK
      split: prod.splits sum.splits option.splits)

lemma askWithHistory_builds:
  assumes "conversationalChain e = None" and "\<not> blank q"
    and "fst (getConfig Number env ci) = Inr rc"
  shows "conversationalChain
           (snd (snd (askWithHistory Number env invoke t0 t1 q h config (ci, e)))) =
           Some \<lparr>retriever_k = orElse (opt o_topK config) (topK rc),
                 chain_llm = llmFor config rc (llm e), history_aware = True\<rparr>"
  using assms
  by (auto simp: askWithHistory_def Let_def updateLlm_frame initializeConversationalChain_def
      buildChain_def initializeStore_def mergeQAConfig_topK
      split: prod.splits sum.splits option.splits)

lemma askQuestion_other_chain:
  "conversationalChain (snd (snd (askQuestion Number env invoke t0 t1 q config (ci, e))))
     = conversationalChain e"
  by (auto simp: askQuestion_def Let_def updateLlm_frame initializeQAChain_def buildChain_def
      split: prod.splits sum.splits option.splits)

lemma askWithHistory_other_chain:
  "qaChain (snd (snd (askWithHistory Number env invoke t0 t1 q h config (ci, e)))) = qaChain e"
  by (auto simp: askWithHistory_def Let_def updateLlm_frame initializeConversationalChain_def
      buildChain_def split: prod.splits sum.splits option.splits)

lemma perform_keeps:
  "qaChain (snd s) = Some c \<Longrightarrow> qaChain (snd (perform Number env invoke x s)) = Some c"
  "conversationalChain (snd s) = Some c' \<Longrightarrow>
   conversationalChain (snd (perform Number env invoke x s)) = Some c'"
  by (cases x; cases s;
      simp add: askQuestion_reuse askWithHistory_reuse askQuestion_other_chain
        askWithHistory_other_chain)+

lemma later_keeps:
  "qaChain (snd s) = Some c \<Longrightarrow> qaChain (snd (later Number env invoke xs s)) = Some c"
  "conversationalChain (snd s) = Some c' \<Longrightarrow>
   conversationalChain (snd (later Number env invoke xs s)) = Some c'"
  by (induction xs arbitrary: s) (simp_all add: perform_keeps)

lemma later_config:
  "fst s = Some rc \<Longrightarrow> fst (later Number env invoke xs s) = Some rc"
proof (induction xs arbitrary: s)
  case Nil
  then show ?case by simp
next
  case (Cons x xs)
  have "fst (perform Number env invoke x s) = Some rc"
    using Cons.prems
    by (cases x; cases s)
       (auto simp: askQuestion_def askWithHistory_def getConfig_stored Let_def
          split: prod.splits sum.splits option.splits)
  with Cons.IH show ?case by simp
qed

lemma engine_ready_fields:
  "qaChain engine_ready = Some chain_first" "conversationalChain engine_ready = Some chain_chat"
  "llm engine_ready = llm_default"
  by (simp_all add: engine_ready_def)

lemma llmFor_overrides: "llmFor overrides DEFAULT_CONFIG current = llm_hot"
  by (simp add: llmFor_def overrides_def opt_def orElse_def DEFAULT_CONFIG_def llm_hot_def
      fin_def)

lemma later_three_config:
  "fst (later nanNumber env_unset invoke_ok calls_three (Some DEFAULT_CONFIG, engine_ready))
     = Some DEFAULT_CONFIG"
  by (simp add: later_config)

text \<open>
  C9. A first call of \<open>askQuestion\<close> builds the chain with the retriever's \<open>k\<close> and the
  client in effect at that call. Once the chain is there, every sequence of later calls, of
  \<open>askQuestion\<close> and of \<open>askWithHistory\<close> with any overrides, leaves \<open>qaChain\<close> as it is, and
  a call of \<open>askQuestion\<close> after them invokes that chain: a different \<open>topK\<close> does not reach
  the retriever, and an override of temperature or maxTokens puts a new client into the
  engine's \<open>llm\<close> field and not into the chain. The same holds of \<open>askWithHistory\<close> and
  \<open>conversationalChain\<close>.
\<close>

theorem chains_built_once:
  "(qaChain e = None \<and> \<not> blank q \<and> fst (getConfig Number env ci) = Inr rc \<longrightarrow>
      qaChain (snd (snd (askQuestion Number env invoke t0 t1 q config (ci, e)))) =
        Some \<lparr>retriever_k = orElse (opt o_topK config) (topK rc),
              chain_llm = llmFor config rc (llm e), history_aware = False\<rparr>)
   \<and> (conversationalChain e = None \<and> \<not> blank q
        \<and> fst (getConfig Number env ci) = Inr rc \<longrightarrow>
      conversationalChain
        (snd (snd (askWithHistory Number env invoke t0 t1 q h config (ci, e)))) =
        Some \<lparr>retriever_k = orElse (opt o_topK config) (topK rc),
              chain_llm = llmFor config rc (llm e), history_aware = True\<rparr>)
   \<and> (qaChain e = Some c \<longrightarrow>
      qaChain (snd (later Number env invoke calls (ci, e))) = Some c)
   \<and> (conversationalChain e = Some c' \<longrightarrow>
      conversationalChain (snd (later Number env invoke calls (ci, e))) = Some c')
   \<and> (qaChain e = Some c \<and> \<not> blank q
        \<and> fst (getConfig Number env (fst (later Number env invoke calls (ci, e)))) = Inr rc \<longrightarrow>
      fst (askQuestion Number env invoke t0 t1 q config
             (later Number env invoke calls (ci, e))) =
        rethrowQA ''Failed to process question: ''
          (case invoke c q None of Inl err \<Rightarrow> Inl err
           | Inr result \<Rightarrow> Inr (makeResponse t0 t1 result))
      \<and> llm (snd (snd (askQuestion Number env invoke t0 t1 q config
                          (later Number env invoke calls (ci, e)))))
          = llmFor config rc (llm (snd (later Number env invoke calls (ci, e)))))
   \<and> (conversationalChain e = Some c' \<and> \<not> blank q
        \<and> fst (getConfig Number env (fst (later Number env invoke calls (ci, e)))) = Inr rc \<longrightarrow>
      fst (askWithHistory Number env invoke t0 t1 q h config
             (later Number env invoke calls (ci, e))) =
        rethrowQA ''Failed to process question with history: ''
          (case invoke c' q (Some (formatHistory h)) of Inl err \<Rightarrow> Inl err
           | Inr result \<Rightarrow> Inr (makeResponse t0 t1 result))
      \<and> llm (snd (snd (askWithHistory Number env invoke t0 t1 q h config
                          (later Number env invoke calls (ci, e)))))
          = llmFor config rc (llm (snd (later Number env invoke calls (ci, e)))))"
proof -
  obtain ci' e' where s': "later Number env invoke calls (ci, e) = (ci', e')"
    by (cases "later Number env invoke calls (ci, e)")
  have q: "qaChain e' = Some c" if "qaChain e = Some c"
    using later_keeps(1)[of "(ci, e)" c Number env invoke calls] that s' by simp
  have cv: "conversationalChain e' = Some c'" if "conversationalChain e = Some c'"
    using later_keeps(2)[of "(ci, e)" c' Number env invoke calls] that s' by simp
  show ?thesis
    using askQuestion_builds[of e q Number env ci rc invoke t0 t1 config]
      askWithHistory_builds[of e q Number env ci rc invoke t0 t1 h config]
      askQuestion_uses[of e' c q Number env ci' rc invoke t0 t1 config]
      askWithHistory_uses[of e' c' q Number env ci' rc invoke t0 t1 h config]
      q cv
    by (simp add: s')
qed

text \<open>
  The chains of \<open>engine_ready\<close> were built with \<open>k = 4\<close> and temperature 0. After three
  calls, two of them with \<open>topK = 10\<close> and temperature 1.5, both chains are the same; a
  further question with these overrides is answered by the first chain, while the engine's
  client has temperature 1.5. On a new engine the same overrides build a chain with
  \<open>k = 10\<close> and temperature 1.5.
\<close>

theorem chains_built_once_witness:
  "qaChain engine_ready = Some chain_first \<and> conversationalChain engine_ready = Some chain_chat
   \<and> retriever_k chain_first = fin 4 \<and> temperature (chain_llm chain_first) = fin 0
   \<and> qaChain (snd (later nanNumber env_unset invoke_ok calls_three
                      (Some DEFAULT_CONFIG, engine_ready))) = Some chain_first
   \<and> conversationalChain (snd (later nanNumber env_unset invoke_ok calls_three
                                  (Some DEFAULT_CONFIG, engine_ready))) = Some chain_chat
   \<and> \<not> blank (js ''why'')
   \<and> fst (getConfig nanNumber env_unset
            (fst (later nanNumber env_unset invoke_ok calls_three
                    (Some DEFAULT_CONFIG, engine_ready)))) = Inr DEFAULT_CONFIG
   \<and> fst (askQuestion nanNumber env_unset invoke_ok 12 15 (js ''why'') overrides
            (later nanNumber env_unset invoke_ok calls_three
               (Some DEFAULT_CONFIG, engine_ready))) =
        Inr (makeResponse 12 15 \<lparr>cr_answer = Some (js ''ok''), cr_context = Some [doc_a]\<rparr>)
   \<and> llm (snd (snd (askQuestion nanNumber env_unset invoke_ok 12 15 (js ''why'') overrides
                       (later nanNumber env_unset invoke_ok calls_three
                          (Some DEFAULT_CONFIG, engine_ready))))) = llm_hot
   \<and> qaChain engine_new = None
   \<and> fst (getConfig nanNumber env_unset None) = Inr DEFAULT_CONFIG
   \<and> qaChain (snd (snd (askQuestion nanNumber env_unset invoke_ok 0 5 (js ''why'') overrides
                           (None, engine_new)))) =
        Some \<lparr>retriever_k = fin 10, chain_llm = llm_hot, history_aware = False\<rparr>"
proof -
  have k: "orElse (opt o_topK overrides) (topK DEFAULT_CONFIG) = fin 10"
    by (simp add: overrides_def opt_def orElse_def fin_def)
  have new: "qaChain engine_new = None" "conversationalChain engine_new = None"
    by (simp_all add: engine_new_def)
  have first: "retriever_k chain_first = fin 4" "temperature (chain_llm chain_first) = fin 0"
    by (simp_all add: chain_first_def llm_default_def)
  show ?thesis
    using chains_built_once[of engine_ready "js ''why''" nanNumber env_unset
        "Some DEFAULT_CONFIG" DEFAULT_CONFIG invoke_ok 12 15 overrides "[]" chain_first
        calls_three chain_chat]
      chains_built_once[of engine_new "js ''why''" nanNumber env_unset None
        DEFAULT_CONFIG invoke_ok 0 5 overrides "[]" chain_first "[]" chain_chat]
    by (simp add: engine_ready_fields new first blank_simps getConfig_stored getConfig_unset
        later_three_config llmFor_overrides k invoke_ok_def rethrowQA_def)
qed

end
